theory Spec2Isabelle
  imports Main
begin

section \<open>Strings and the validator library\<close>

text \<open>
  A JavaScript string is modelled as a \<^typ>\<open>string\<close>, one \<^typ>\<open>char\<close> per code unit, for
  code units below 256. On such strings \<open>str.length\<close> is \<^const>\<open>length\<close>.
  A property that a request body may leave out is a \<^typ>\<open>string option\<close>,
  \<^const>\<open>None\<close> standing for \<open>undefined\<close>.
\<close>

text \<open>
  What a property of \<open>req.body\<close> holds once the chains have run: \<open>undefined\<close>, a string,
  or the boolean \<open>false\<close>, which \<open>normalizeEmail\<close> returns when it gives an address up.
\<close>

datatype js_value = JUndefined | JString string | JFalse

text \<open>
  The chains of the route call functions of the validator library, which is not part of
  the routes. Two of them, \<open>isEmail\<close> and \<open>normalizeEmail\<close>, are parameters of the model:
  every theorem below holds for all of them. \<open>normalizeEmail\<close> returns the normalized
  address or \<open>false\<close>. The others, \<open>trim\<close>, \<open>escape\<close>, \<open>notEmpty\<close> and \<open>isLength\<close>, are
  written out below as the library has them.
\<close>

record validator =
  isEmail :: "string \<Rightarrow> bool"
  normalizeEmail :: "string \<Rightarrow> js_value"

text \<open>\<open>\s\<close> of a regular expression, on code units below 256.\<close>

definition is_space :: "char \<Rightarrow> bool" where
  "is_space c \<longleftrightarrow> c \<in> {CHR 0x09, CHR 0x0A, CHR 0x0B, CHR 0x0C, CHR 0x0D, CHR 0x20, CHR 0xA0}"

text \<open>\<open>ltrim\<close>: \<open>str.replace(/^\s+/g, '')\<close>.\<close>

definition ltrim :: "string \<Rightarrow> string" where
  "ltrim str = dropWhile is_space str"

text \<open>\<open>rtrim\<close>: walk back from the last index while the character is white space.\<close>

definition rtrim :: "string \<Rightarrow> string" where
  "rtrim str = rev (dropWhile is_space (rev str))"

definition trim :: "string \<Rightarrow> string" where
  "trim str = rtrim (ltrim str)"

text \<open>\<open>str.replace(/c/g, r)\<close> for a single character \<open>c\<close>.\<close>

fun replace_all :: "char \<Rightarrow> string \<Rightarrow> string \<Rightarrow> string" where
  "replace_all c r [] = []"
| "replace_all c r (x # xs) = (if x = c then r @ replace_all c r xs else x # replace_all c r xs)"

text \<open>
  \<open>escape\<close>: eight replacements, one after the other, the ampersand first:
  \<open>&\<close>, \<open>"\<close>, \<open>'\<close>, \<open><\<close>, \<open>>\<close>, \<open>/\<close>, the backslash and the backtick.
\<close>

definition escape :: "string \<Rightarrow> string" where
  "escape str =
     replace_all (CHR 0x60) ''&#96;''
      (replace_all (CHR 0x5C) ''&#x5C;''
       (replace_all (CHR ''/'') ''&#x2F;''
        (replace_all (CHR ''>'') ''&gt;''
         (replace_all (CHR ''<'') ''&lt;''
          (replace_all (CHR 0x27) ''&#x27;''
           (replace_all (CHR 0x22) ''&quot;''
            (replace_all (CHR ''&'') ''&amp;'' str)))))))"

text \<open>\<open>notEmpty()\<close> is \<open>not().isEmpty()\<close>; \<open>isLength({ max: 1000 })\<close>.\<close>

definition notEmpty :: "string \<Rightarrow> bool" where
  "notEmpty str \<longleftrightarrow> str \<noteq> []"

definition isLength :: "nat \<Rightarrow> string \<Rightarrow> bool" where
  "isLength mx str \<longleftrightarrow> length str \<le> mx"

section \<open>The contact model (models/contactModel.js)\<close>

text \<open>
  The five properties the handler reads from \<open>req.body\<close>, and the document built from
  them: the same five paths, \<open>_id\<close> and \<open>date\<close> (a time in milliseconds). A request
  carries its fields in the body, as strings (\<open>body\<close>); once the chains have run, each
  property holds what its last sanitizer returned (\<open>js_value fields\<close>).
\<close>

record 'v fields =
  name :: 'v
  email :: 'v
  phone :: 'v
  topic :: 'v
  message :: 'v

type_synonym body = "string option fields"

record contact = "string option fields" +
  object_id :: string
  date :: nat

datatype store_error = ValidationError "string list" | DriverError string

text \<open>
  A path with \<open>required: true\<close> of type String fails validation when it is undefined or
  the empty string.
\<close>

definition required_missing :: "string option \<Rightarrow> bool" where
  "required_missing v \<longleftrightarrow> (case v of None \<Rightarrow> True | Some s \<Rightarrow> s = [])"

definition failed_paths :: "contact \<Rightarrow> string list" where
  "failed_paths doc =
     (if required_missing (name doc) then [''name''] else []) @
     (if required_missing (email doc) then [''email''] else []) @
     (if required_missing (message doc) then [''message''] else [])"

text \<open>
  A path of type String casts what it is given: \<open>undefined\<close> stays undefined, and the
  boolean \<open>false\<close> becomes the string \<open>false\<close>.
\<close>

definition castString :: "js_value \<Rightarrow> string option" where
  "castString v = (case v of JUndefined \<Rightarrow> None | JString s \<Rightarrow> Some s | JFalse \<Rightarrow> Some ''false'')"

text \<open>
  \<open>new Contact({ name, email, phone, topic, message })\<close>: the identifier is assigned at
  construction, \<open>date\<close> defaults to \<open>Date.now\<close>.
\<close>

definition new_contact :: "string \<Rightarrow> nat \<Rightarrow> js_value fields \<Rightarrow> contact" where
  "new_contact oid t b =
     \<lparr>name = castString (name b), email = castString (email b), phone = castString (phone b),
      topic = castString (topic b), message = castString (message b),
      object_id = oid, date = t\<rparr>"

text \<open>
  \<open>doc.save()\<close>: schema validation, then the insert, which the database may refuse
  (\<open>failure\<close> is what the driver reports, if anything).
\<close>

definition save :: "string option \<Rightarrow> contact list \<Rightarrow> contact \<Rightarrow> store_error + contact list" where
  "save failure docs doc =
     (if failed_paths doc \<noteq> [] then Inl (ValidationError (failed_paths doc))
      else case failure of
        Some e \<Rightarrow> Inl (DriverError e)
      | None \<Rightarrow> Inr (docs @ [doc]))"

text \<open>\<open>Contact.find()\<close>.\<close>

definition find_all :: "string option \<Rightarrow> contact list \<Rightarrow> store_error + contact list" where
  "find_all failure docs = (case failure of Some e \<Rightarrow> Inl (DriverError e) | None \<Rightarrow> Inr docs)"

section \<open>Configuration (config.js)\<close>

record config =
  emailService :: "string option"
  emailUser :: "string option"
  emailPass :: "string option"

section \<open>The validation chains of \<open>router.post\<close>\<close>

datatype item = Sanitizer "string \<Rightarrow> js_value" | Validator "string \<Rightarrow> bool" string

record validation_error =
  msg :: string
  param :: string
  location :: string

text \<open>
  A chain item sees the field as a string: \<open>undefined\<close> is the empty string, and \<open>false\<close>
  the string \<open>false\<close>. \<open>toString\<close> is that view of a property of the request body,
  \<open>stringify\<close> of any value; \<open>js\<close> reads a property of the request body as a value.
\<close>

definition toString :: "string option \<Rightarrow> string" where
  "toString v = (case v of None \<Rightarrow> [] | Some s \<Rightarrow> s)"

definition stringify :: "js_value \<Rightarrow> string" where
  "stringify v = (case v of JUndefined \<Rightarrow> [] | JString s \<Rightarrow> s | JFalse \<Rightarrow> ''false'')"

definition js :: "string option \<Rightarrow> js_value" where
  "js v = (case v of None \<Rightarrow> JUndefined | Some s \<Rightarrow> JString s)"

text \<open>
  The items of a chain run in order. A sanitizer replaces the value in \<open>req.body\<close> by
  what it returns; a validator that fails records its message and the chain goes on
  (no \<open>bail\<close>).
\<close>

fun run_chain :: "string \<Rightarrow> item list \<Rightarrow> js_value \<Rightarrow> validation_error list \<times> js_value" where
  "run_chain f [] v = ([], v)"
| "run_chain f (Sanitizer g # items) v = run_chain f items (g (stringify v))"
| "run_chain f (Validator p m # items) v =
     (let (es, v') = run_chain f items v
      in ((if p (stringify v) then [] else [\<lparr>msg = m, param = f, location = ''body''\<rparr>]) @ es, v'))"

text \<open>\<open>optional()\<close>: an undefined field skips its chain.\<close>

definition run_optional :: "string \<Rightarrow> item list \<Rightarrow> js_value \<Rightarrow> validation_error list \<times> js_value" where
  "run_optional f items v =
     (case v of JUndefined \<Rightarrow> ([], JUndefined) | _ \<Rightarrow> run_chain f items v)"

text \<open>\<open>trim\<close> and \<open>escape\<close> return strings; \<open>normalizeEmail\<close> a string or \<open>false\<close>.\<close>

definition check_name :: "item list" where
  "check_name =
     [Sanitizer (JString \<circ> trim), Validator notEmpty ''Name is required'',
      Sanitizer (JString \<circ> escape)]"

definition check_email :: "validator \<Rightarrow> item list" where
  "check_email V =
     [Sanitizer (JString \<circ> trim), Validator (isEmail V) ''Valid email is required'',
      Sanitizer (normalizeEmail V)]"

definition check_phone :: "item list" where
  "check_phone = [Sanitizer (JString \<circ> trim), Sanitizer (JString \<circ> escape)]"

definition check_topic :: "item list" where
  "check_topic = [Sanitizer (JString \<circ> trim), Sanitizer (JString \<circ> escape)]"

definition check_message :: "item list" where
  "check_message =
     [Sanitizer (JString \<circ> trim), Validator notEmpty ''Message is required'',
      Validator (isLength 1000) ''Message can be at most 1000 characters long'',
      Sanitizer (JString \<circ> escape)]"

text \<open>
  The five chains in the order of the route; \<open>validationResult(req).array()\<close> is the
  errors in that order, and \<open>req.body\<close> holds the sanitized values.
\<close>

definition validation_chain ::
  "validator \<Rightarrow> body \<Rightarrow> validation_error list \<times> js_value fields" where
  "validation_chain V b =
     (let (e1, n) = run_chain ''name'' check_name (js (name b));
          (e2, e) = run_chain ''email'' (check_email V) (js (email b));
          (e3, p) = run_optional ''phone'' check_phone (js (phone b));
          (e4, t) = run_optional ''topic'' check_topic (js (topic b));
          (e5, m) = run_chain ''message'' check_message (js (message b))
      in (e1 @ e2 @ e3 @ e4 @ e5,
          \<lparr>name = n, email = e, phone = p, topic = t, message = m\<rparr>))"

section \<open>The rate limiter of \<open>router.post\<close>\<close>

text \<open>\<open>contactLimiter\<close>: \<open>windowMs\<close>, \<open>max\<close> and \<open>message\<close> as the route sets them.\<close>

definition windowMs :: nat where
  "windowMs = 15 * 60 * 1000"

definition max_requests :: nat where
  "max_requests = 10"

definition limit_message :: string where
  "limit_message =
     ''Too many contact form submissions from this IP, please try again after 15 minutes''"

type_synonym hits = "string \<rightharpoonup> nat \<times> nat"

text \<open>
  Modelled from the spec: the counter store of the rate-limiting middleware, which is not
  part of the routes. It tracks request counts keyed by client network address over a
  window of 15 minutes, as a mapping from the client key to the count and the time at
  which its window expires; the window resets on expiry. Times are milliseconds.
\<close>

definition increment :: "hits \<Rightarrow> string \<Rightarrow> nat \<Rightarrow> hits \<times> nat" where
  "increment h key t =
     (case h key of
        Some (n, resetTime) \<Rightarrow>
          if t < resetTime then (h(key \<mapsto> (n + 1, resetTime)), n + 1)
          else (h(key \<mapsto> (1, t + windowMs)), 1)
      | None \<Rightarrow> (h(key \<mapsto> (1, t + windowMs)), 1))"

text \<open>
  Modelled from the spec: the middleware counts the request under the client address and
  rejects it once the count for that key exceeds the maximum within the window.
  \<^const>\<open>True\<close> means the request goes on to the next middleware.
\<close>

definition contactLimiter :: "hits \<Rightarrow> string \<Rightarrow> nat \<Rightarrow> hits \<times> bool" where
  "contactLimiter h key t = (let (h', n) = increment h key t in (h', n \<le> max_requests))"

section \<open>The routes (routes/contactRoutes.js)\<close>

record mail =
  from_addr :: "string option"
  to_addr :: js_value
  subject :: string
  text_body :: string

datatype log_entry =
    ErrorSaving store_error
  | ErrorSending string
  | ConfirmationSent string
  | ErrorFetching store_error

datatype payload =
    Created string contact
  | Errors "validation_error list"
  | Failed string store_error
  | Plain string
  | Contacts "contact list"

record response =
  status :: nat
  payload :: payload

text \<open>
  The server between two requests: the limiter's counters, the contacts collection, the
  mails handed to the transporter and the console.
\<close>

record server =
  limiter :: hits
  store :: "contact list"
  outbox :: "mail list"
  console :: "log_entry list"

definition init :: server where
  "init = \<lparr>limiter = Map.empty, store = [], outbox = [], console = []\<rparr>"

text \<open>
  What the outside supplies while one request is served: the clock, the identifier of
  the new document, whether the insert fails, and what the transporter's callback
  receives (\<^const>\<open>Inl\<close> an error, \<^const>\<open>Inr\<close> the \<open>info.response\<close>).
\<close>

record io =
  clock :: nat
  new_id :: string
  insert_failure :: "string option"
  send_result :: "string + string"

record request =
  ip :: string
  req_body :: body

text \<open>A value inside a template literal; \<open>topic || 'N/A'\<close>.\<close>

definition interpolate :: "js_value \<Rightarrow> string" where
  "interpolate v =
     (case v of JUndefined \<Rightarrow> ''undefined'' | JString s \<Rightarrow> s | JFalse \<Rightarrow> ''false'')"

definition topic_or_na :: "js_value \<Rightarrow> string" where
  "topic_or_na v = (case v of JString s \<Rightarrow> if s = [] then ''N/A'' else s | _ \<Rightarrow> ''N/A'')"

definition nl :: string where
  "nl = [CHR 0x0A]"

definition mailOptions :: "config \<Rightarrow> js_value fields \<Rightarrow> mail" where
  "mailOptions cfg b =
     \<lparr>from_addr = emailUser cfg,
      to_addr = email b,
      subject = ''Contact Form Submission Confirmation'',
      text_body =
        ''Thank you for contacting us, '' @ interpolate (name b) @ ''!'' @ nl @ nl @
        ''We have received your message and will get back to you shortly.'' @ nl @ nl @
        ''Your message details:'' @ nl @
        ''Topic: '' @ topic_or_na (topic b) @ nl @
        ''Message: '' @ interpolate (message b) @ nl @ nl @
        ''Best regards,'' @ nl @
        ''The Contact Us Team''\<rparr>"

text \<open>
  The callback of \<open>transporter.sendMail\<close>. It runs once the transporter has an outcome,
  and writes to the console and nothing else.
\<close>

definition sendMail_callback :: "string + string \<Rightarrow> log_entry" where
  "sendMail_callback r = (case r of Inl e \<Rightarrow> ErrorSending e | Inr i \<Rightarrow> ConfirmationSent i)"

text \<open>The handler of \<open>router.post\<close>, entered once the limiter and the chains have run.\<close>

definition submit_handler ::
  "config \<Rightarrow> io \<Rightarrow> server \<Rightarrow> validation_error list \<times> js_value fields \<Rightarrow> response \<times> server" where
  "submit_handler cfg w s vr =
     (let (errors, b) = vr in
      if errors \<noteq> [] then (\<lparr>status = 400, payload = Errors errors\<rparr>, s)
      else
        let newContact = new_contact (new_id w) (clock w) b in
        case save (insert_failure w) (store s) newContact of
          Inl error \<Rightarrow>
            (\<lparr>status = 500, payload = Failed ''Failed to submit contact form.'' error\<rparr>,
             s\<lparr>console := console s @ [ErrorSaving error]\<rparr>)
        | Inr docs \<Rightarrow>
            (\<lparr>status = 201, payload = Created ''Contact form submitted successfully!'' newContact\<rparr>,
             s\<lparr>store := docs,
               outbox := outbox s @ [mailOptions cfg b],
               console := console s @ [sendMail_callback (send_result w)]\<rparr>))"

text \<open>\<open>router.post('/', contactLimiter, [chains], handler)\<close>.\<close>

definition post_contact :: "validator \<Rightarrow> config \<Rightarrow> io \<Rightarrow> server \<Rightarrow> request \<Rightarrow> response \<times> server" where
  "post_contact V cfg w s req =
     (let (h, pass) = contactLimiter (limiter s) (ip req) (clock w);
          s1 = s\<lparr>limiter := h\<rparr>
      in if \<not> pass then (\<lparr>status = 429, payload = Plain limit_message\<rparr>, s1)
         else submit_handler cfg w s1 (validation_chain V (req_body req)))"

text \<open>\<open>router.get('/')\<close>.\<close>

definition get_contacts :: "string option \<Rightarrow> server \<Rightarrow> response \<times> server" where
  "get_contacts failure s =
     (case find_all failure (store s) of
        Inr contacts \<Rightarrow> (\<lparr>status = 200, payload = Contacts contacts\<rparr>, s)
      | Inl error \<Rightarrow>
          (\<lparr>status = 500, payload = Failed ''Failed to retrieve contact messages.'' error\<rparr>,
           s\<lparr>console := console s @ [ErrorFetching error]\<rparr>))"

text \<open>Requests served one after the other.\<close>

datatype event = Post io request | Get "string option"

fun step :: "validator \<Rightarrow> config \<Rightarrow> server \<Rightarrow> event \<Rightarrow> response \<times> server" where
  "step V cfg s (Post w req) = post_contact V cfg w s req"
| "step V cfg s (Get failure) = get_contacts failure s"

fun run :: "validator \<Rightarrow> config \<Rightarrow> server \<Rightarrow> event list \<Rightarrow> response list \<times> server" where
  "run V cfg s [] = ([], s)"
| "run V cfg s (e # es) =
     (let (r, s') = step V cfg s e; (rs, s'') = run V cfg s' es in (r # rs, s''))"

section \<open>Notions used to state the properties\<close>

text \<open>What the eight replacements of \<^const>\<open>escape\<close> do to one character.\<close>

definition escape_char :: "char \<Rightarrow> string" where
  "escape_char c =
     (if c = CHR ''&'' then ''&amp;''
      else if c = CHR 0x22 then ''&quot;''
      else if c = CHR 0x27 then ''&#x27;''
      else if c = CHR ''<'' then ''&lt;''
      else if c = CHR ''>'' then ''&gt;''
      else if c = CHR ''/'' then ''&#x2F;''
      else if c = CHR 0x5C then ''&#x5C;''
      else if c = CHR 0x60 then ''&#96;''
      else [c])"

definition markup :: "char set" where
  "markup = {CHR ''<'', CHR ''>'', CHR 0x22, CHR 0x27, CHR ''/'', CHR 0x5C, CHR 0x60}"

text \<open>The sanitized \<open>req.body\<close> and the errors of a submission.\<close>

definition sanitized :: "validator \<Rightarrow> body \<Rightarrow> js_value fields" where
  "sanitized V b = snd (validation_chain V b)"

definition validation_errors :: "validator \<Rightarrow> body \<Rightarrow> validation_error list" where
  "validation_errors V b = fst (validation_chain V b)"

text \<open>A request passes the limiter in state \<open>s\<close>.\<close>

definition passes :: "server \<Rightarrow> io \<Rightarrow> request \<Rightarrow> bool" where
  "passes s w req = snd (contactLimiter (limiter s) (ip req) (clock w))"

text \<open>The document a request leads to, when it is written.\<close>

definition document :: "validator \<Rightarrow> io \<Rightarrow> request \<Rightarrow> contact" where
  "document V w req = new_contact (new_id w) (clock w) (sanitized V (req_body req))"

text \<open>The records an event adds to the collection, read off its response.\<close>

fun created :: "validator \<Rightarrow> event \<Rightarrow> response \<Rightarrow> contact list" where
  "created V (Post w req) r = (if status r = 201 then [document V w req] else [])"
| "created V (Get failure) r = []"

fun is_post :: "event \<Rightarrow> bool" where
  "is_post (Post w req) = True"
| "is_post (Get failure) = False"

text \<open>A submission from the client address \<open>a\<close>, and the time of an event.\<close>

fun from_ip :: "string \<Rightarrow> event \<Rightarrow> bool" where
  "from_ip a (Post w req) = (ip req = a)"
| "from_ip a (Get failure) = False"

fun time_of :: "event \<Rightarrow> nat" where
  "time_of (Post w req) = clock w"
| "time_of (Get failure) = 0"

text \<open>The client \<open>a\<close> has no running window at time \<open>t\<close>.\<close>

definition no_window :: "server \<Rightarrow> string \<Rightarrow> nat \<Rightarrow> bool" where
  "no_window s a t = (case limiter s a of None \<Rightarrow> True | Some (n, resetTime) \<Rightarrow> resetTime \<le> t)"

text \<open>
  An instance of the library's two parameters, fixed on the addresses of the examples
  only, as the library answers on them, to run the model on concrete requests. The
  library accepts \<open>+foo@gmail.com\<close> as an email and gives it up when normalizing: with
  the Gmail subaddress removed, its local part is empty.
\<close>

definition sample_validator :: validator where
  "sample_validator =
     \<lparr>isEmail = (\<lambda>s. s = ''ANN@Example.com'' \<or> s = ''a@b.com'' \<or> s = ''+foo@gmail.com''),
      normalizeEmail =
        (\<lambda>s. if s = ''ANN@Example.com'' then JString ''ann@example.com''
             else if s = ''+foo@gmail.com'' then JFalse
             else JString s)\<rparr>"

definition sample_config :: config where
  "sample_config =
     \<lparr>emailService = Some ''gmail'', emailUser = Some ''desk@example.com'', emailPass = Some ''secret''\<rparr>"

definition sample_io :: io where
  "sample_io = \<lparr>clock = 0, new_id = ''65f0c0ffee'', insert_failure = None, send_result = Inr ''250 OK''\<rparr>"

definition ann :: request where
  "ann = \<lparr>ip = ''10.0.0.1'',
          req_body = \<lparr>name = Some ''Ann'', email = Some ''ANN@Example.com'', phone = None,
                      topic = None, message = Some ''Hello''\<rparr>\<rparr>"

definition nameless :: request where
  "nameless = \<lparr>ip = ''10.0.0.1'',
               req_body = \<lparr>name = Some [], email = Some ''a@b.com'', phone = None,
                           topic = None, message = Some ''hi''\<rparr>\<rparr>"

definition tagged :: request where
  "tagged = \<lparr>ip = ''10.0.0.2'',
             req_body = \<lparr>name = Some '' <b>Ann</b>'', email = Some ''a@b.com'', phone = None,
                         topic = Some ''R&D'', message = Some ''is 1<2?''\<rparr>\<rparr>"

definition plus_foo :: request where
  "plus_foo = \<lparr>ip = ''10.0.0.4'',
               req_body = \<lparr>name = Some ''Foo'', email = Some ''+foo@gmail.com'', phone = None,
                           topic = None, message = Some ''Hello''\<rparr>\<rparr>"

definition oversized :: request where
  "oversized = \<lparr>ip = ''10.0.0.3'',
                req_body = \<lparr>name = Some ''Ann'', email = Some ''a@b.com'', phone = None,
                            topic = None, message = Some (replicate 1000 (CHR ''<''))\<rparr>\<rparr>"

definition blank :: request where
  "blank = \<lparr>ip = ''10.0.0.1'',
            req_body = \<lparr>name = None, email = Some ''nobody'', phone = None, topic = None,
                        message = Some ''   ''\<rparr>\<rparr>"

definition later_io :: io where
  "later_io = \<lparr>clock = 60000, new_id = ''65f0c0ffef'', insert_failure = None,
               send_result = Inl ''ECONNREFUSED''\<rparr>"

definition after_window_io :: io where
  "after_window_io = \<lparr>clock = 900000, new_id = ''65f0c0fff0'', insert_failure = None,
                      send_result = Inr ''250 OK''\<rparr>"

definition session :: "event list" where
  "session = [Post sample_io ann, Post sample_io nameless, Get None, Post later_io tagged]"

text \<open>Ten submissions of one request in a row, and the server after them.\<close>

definition burst :: "request \<Rightarrow> event list" where
  "burst req = Post sample_io req # replicate 9 (Post sample_io req)"

definition after_burst :: "request \<Rightarrow> server" where
  "after_burst req = snd (run sample_validator sample_config init (burst req))"

section \<open>Sanitizers\<close>

lemma replace_all_append:
  "replace_all c r (xs @ ys) = replace_all c r xs @ replace_all c r ys"
  by (induction xs) simp_all

lemma escape_Nil: "escape [] = []"
  by (simp add: escape_def)

lemma escape_Cons: "escape (c # cs) = escape_char c @ escape cs"
proof -
  have "escape ([c] @ cs) = escape [c] @ escape cs"
    by (simp only: escape_def replace_all_append)
  moreover have "escape [c] = escape_char c"
    by (simp add: escape_def escape_char_def)
  ultimately show ?thesis by simp
qed

lemma escape_concat: "escape str = concat (map escape_char str)"
  by (induction str) (simp_all add: escape_Nil escape_Cons)

lemma escape_char_nonempty: "escape_char c \<noteq> []"
  by (simp add: escape_char_def)

lemma length_escape_char: "length (escape_char c) \<le> 6"
  by (simp add: escape_char_def)

lemma escape_empty_iff: "escape str = [] \<longleftrightarrow> str = []"
  by (cases str) (simp_all add: escape_Nil escape_Cons escape_char_nonempty)

lemma length_escape: "length (escape str) \<le> 6 * length str"
proof (induction str)
  case Nil
  show ?case by (simp add: escape_Nil)
next
  case (Cons c cs)
  have "length (escape (c # cs)) = length (escape_char c) + length (escape cs)"
    by (simp add: escape_Cons)
  with Cons length_escape_char [of c] show ?case by simp
qed

lemma escape_char_markup_free: "set (escape_char c) \<inter> markup = {}"
  by (auto simp: escape_char_def markup_def split: if_splits)

lemma escape_markup_free: "set (escape str) \<inter> markup = {}"
proof (induction str)
  case Nil
  show ?case by (simp add: escape_Nil)
next
  case (Cons c cs)
  with escape_char_markup_free [of c] show ?case
    unfolding escape_Cons set_append by blast
qed

section \<open>The chains and the handler, case by case\<close>

lemma toString_simps: "toString None = []" "toString (Some str) = str"
  by (simp_all add: toString_def)

lemma stringify_simps:
  "stringify JUndefined = []" "stringify (JString str) = str" "stringify JFalse = ''false''"
  by (simp_all add: stringify_def)

lemma js_simps: "js None = JUndefined" "js (Some str) = JString str"
  by (simp_all add: js_def)

lemma stringify_js: "stringify (js v) = toString v"
  by (cases v) (simp_all add: js_simps stringify_simps toString_simps)

lemma castString_simps:
  "castString JUndefined = None" "castString (JString str) = Some str"
  "castString JFalse = Some ''false''"
  by (simp_all add: castString_def)

lemma run_optional_js:
  "run_optional f [Sanitizer (JString \<circ> g), Sanitizer (JString \<circ> h)] (js v) =
     ([], case v of None \<Rightarrow> JUndefined | Some p \<Rightarrow> JString (h (g p)))"
  by (cases v) (simp_all add: run_optional_def js_simps stringify_simps)

lemma sanitized_eq:
  "sanitized V b =
     \<lparr>name = JString (escape (trim (toString (name b)))),
      email = normalizeEmail V (trim (toString (email b))),
      phone = (case phone b of None \<Rightarrow> JUndefined | Some p \<Rightarrow> JString (escape (trim p))),
      topic = (case topic b of None \<Rightarrow> JUndefined | Some t \<Rightarrow> JString (escape (trim t))),
      message = JString (escape (trim (toString (message b))))\<rparr>"
  by (simp add: sanitized_def validation_chain_def check_name_def check_email_def
      check_phone_def check_topic_def check_message_def run_optional_js stringify_js
      stringify_simps)

lemma document_eq:
  "document V w req =
     \<lparr>name = Some (escape (trim (toString (name (req_body req))))),
      email = castString (normalizeEmail V (trim (toString (email (req_body req))))),
      phone = map_option (\<lambda>p. escape (trim p)) (phone (req_body req)),
      topic = map_option (\<lambda>t. escape (trim t)) (topic (req_body req)),
      message = Some (escape (trim (toString (message (req_body req))))),
      object_id = new_id w, date = clock w\<rparr>"
  by (simp add: document_def new_contact_def sanitized_eq castString_simps split: option.splits)

lemma validation_errors_eq:
  "validation_errors V b =
     (if trim (toString (name b)) \<noteq> [] then []
      else [\<lparr>msg = ''Name is required'', param = ''name'', location = ''body''\<rparr>]) @
     (if isEmail V (trim (toString (email b))) then []
      else [\<lparr>msg = ''Valid email is required'', param = ''email'', location = ''body''\<rparr>]) @
     (if trim (toString (message b)) \<noteq> [] then []
      else [\<lparr>msg = ''Message is required'', param = ''message'', location = ''body''\<rparr>]) @
     (if length (trim (toString (message b))) \<le> 1000 then []
      else [\<lparr>msg = ''Message can be at most 1000 characters long'', param = ''message'',
             location = ''body''\<rparr>])"
  by (simp add: validation_errors_def validation_chain_def check_name_def check_email_def
      check_phone_def check_topic_def check_message_def run_optional_js notEmpty_def
      isLength_def stringify_js stringify_simps)

lemma validation_errors_Nil_iff:
  "validation_errors V b = [] \<longleftrightarrow>
     trim (toString (name b)) \<noteq> [] \<and> isEmail V (trim (toString (email b))) \<and>
     trim (toString (message b)) \<noteq> [] \<and> length (trim (toString (message b))) \<le> 1000"
  by (simp add: validation_errors_eq)

lemma post_contact_limited:
  "\<not> passes s w req \<Longrightarrow>
   post_contact V cfg w s req =
     (\<lparr>status = 429, payload = Plain limit_message\<rparr>,
      s\<lparr>limiter := fst (contactLimiter (limiter s) (ip req) (clock w))\<rparr>)"
  by (cases "contactLimiter (limiter s) (ip req) (clock w)")
     (simp add: post_contact_def passes_def)

lemma post_contact_passed:
  "passes s w req \<Longrightarrow>
   post_contact V cfg w s req =
     submit_handler cfg w (s\<lparr>limiter := fst (contactLimiter (limiter s) (ip req) (clock w))\<rparr>)
       (validation_chain V (req_body req))"
  by (cases "contactLimiter (limiter s) (ip req) (clock w)")
     (simp add: post_contact_def passes_def)

lemma post_contact_invalid:
  "passes s w req \<Longrightarrow> validation_errors V (req_body req) \<noteq> [] \<Longrightarrow>
   post_contact V cfg w s req =
     (\<lparr>status = 400, payload = Errors (validation_errors V (req_body req))\<rparr>,
      s\<lparr>limiter := fst (contactLimiter (limiter s) (ip req) (clock w))\<rparr>)"
  by (cases "validation_chain V (req_body req)")
     (simp add: post_contact_passed submit_handler_def validation_errors_def)

lemma post_contact_save_failed:
  "passes s w req \<Longrightarrow> validation_errors V (req_body req) = [] \<Longrightarrow>
   save (insert_failure w) (store s) (document V w req) = Inl err \<Longrightarrow>
   post_contact V cfg w s req =
     (\<lparr>status = 500, payload = Failed ''Failed to submit contact form.'' err\<rparr>,
      s\<lparr>limiter := fst (contactLimiter (limiter s) (ip req) (clock w)),
        console := console s @ [ErrorSaving err]\<rparr>)"
  by (cases "validation_chain V (req_body req)")
     (simp add: post_contact_passed submit_handler_def validation_errors_def
        document_def sanitized_def)

lemma save_Inr: "save failure docs doc = Inr docs' \<Longrightarrow> docs' = docs @ [doc]"
  by (simp add: save_def split: if_splits option.splits)

lemma post_contact_saved:
  "passes s w req \<Longrightarrow> validation_errors V (req_body req) = [] \<Longrightarrow>
   save (insert_failure w) (store s) (document V w req) = Inr docs \<Longrightarrow>
   post_contact V cfg w s req =
     (\<lparr>status = 201,
       payload = Created ''Contact form submitted successfully!'' (document V w req)\<rparr>,
      s\<lparr>limiter := fst (contactLimiter (limiter s) (ip req) (clock w)),
        store := store s @ [document V w req],
        outbox := outbox s @ [mailOptions cfg (sanitized V (req_body req))],
        console := console s @ [sendMail_callback (send_result w)]\<rparr>)"
  by (cases "validation_chain V (req_body req)")
     (simp add: post_contact_passed submit_handler_def validation_errors_def
        document_def sanitized_def save_Inr)


section \<open>The examples, evaluated\<close>

lemma trim_examples:
  "trim ''Ann'' = ''Ann''" "trim ''ANN@Example.com'' = ''ANN@Example.com''"
  "trim ''Hello'' = ''Hello''" "trim ''a@b.com'' = ''a@b.com''" "trim ''hi'' = ''hi''"
  "trim [] = []"
  by (simp_all add: trim_def ltrim_def rtrim_def is_space_def)

lemma sample_passes: "passes init sample_io ann"
  by (simp add: passes_def contactLimiter_def increment_def init_def max_requests_def)

lemma ann_document:
  "document sample_validator sample_io ann =
     \<lparr>name = Some ''Ann'', email = Some ''ann@example.com'', phone = None, topic = None,
      message = Some ''Hello'', object_id = ''65f0c0ffee'', date = 0\<rparr>"
  by (simp add: document_eq castString_simps ann_def sample_io_def
      sample_validator_def toString_simps trim_examples escape_def)

lemma ann_save:
  "save (insert_failure sample_io) (store init) (document sample_validator sample_io ann) =
     Inr [document sample_validator sample_io ann]"
  unfolding ann_document
  by (simp add: save_def failed_paths_def required_missing_def sample_io_def init_def)

lemma passes_init: "passes init w req"
  by (simp add: passes_def contactLimiter_def increment_def init_def max_requests_def)

section \<open>Submitting a valid form\<close>

text \<open>
  For every library: a submission whose name is not empty after trimming, whose trimmed
  email passes \<open>isEmail\<close> and whose trimmed message has between 1 and 1000 characters,
  which passes the limiter and whose \<open>save\<close> succeeds, is answered with 201 and the
  stored record: the assigned identifier, the time of the request, name, phone, topic
  and message trimmed and escaped, and as email what \<open>normalizeEmail\<close> returned, cast by
  the schema. The same record is the one appended to the collection.
\<close>

lemma valid_submission_created:
  assumes "trim (toString (name (req_body req))) \<noteq> []"
    and "isEmail V (trim (toString (email (req_body req))))"
    and "trim (toString (message (req_body req))) \<noteq> []"
    and "length (trim (toString (message (req_body req)))) \<le> 1000"
    and "passes s w req"
    and "save (insert_failure w) (store s) (document V w req) = Inr docs"
  shows "\<exists>s'. post_contact V cfg w s req =
           (\<lparr>status = 201,
             payload = Created ''Contact form submitted successfully!''
               \<lparr>name = Some (escape (trim (toString (name (req_body req))))),
                email = castString (normalizeEmail V (trim (toString (email (req_body req))))),
                phone = map_option (\<lambda>p. escape (trim p)) (phone (req_body req)),
                topic = map_option (\<lambda>t. escape (trim t)) (topic (req_body req)),
                message = Some (escape (trim (toString (message (req_body req))))),
                object_id = new_id w, date = clock w\<rparr>\<rparr>, s')
         \<and> store s' = store s @
               [\<lparr>name = Some (escape (trim (toString (name (req_body req))))),
                email = castString (normalizeEmail V (trim (toString (email (req_body req))))),
                phone = map_option (\<lambda>p. escape (trim p)) (phone (req_body req)),
                topic = map_option (\<lambda>t. escape (trim t)) (topic (req_body req)),
                message = Some (escape (trim (toString (message (req_body req))))),
                object_id = new_id w, date = clock w\<rparr>]"
proof -
  have valid: "validation_errors V (req_body req) = []"
    using assms(1-4) by (simp add: validation_errors_Nil_iff)
  show ?thesis
    using post_contact_saved [OF assms(5) valid assms(6), of cfg] by (simp add: document_eq)
qed

text \<open>
  The handler does not look at what \<open>normalizeEmail\<close> returned. When it returns \<open>false\<close>
  for an address that \<open>isEmail\<close> accepts, the submission is still answered with 201:
  the record holds the string \<open>false\<close> as its email, and the mail handed to the
  transporter is addressed to \<open>false\<close>.
\<close>

lemma false_email_accepted:
  assumes "passes s w req"
    and "validation_errors V (req_body req) = []"
    and "normalizeEmail V (trim (toString (email (req_body req)))) = JFalse"
    and "insert_failure w = None"
  shows "status (fst (post_contact V cfg w s req)) = 201"
    and "store (snd (post_contact V cfg w s req)) = store s @ [document V w req]"
    and "email (document V w req) = Some ''false''"
    and "outbox (snd (post_contact V cfg w s req)) =
           outbox s @ [mailOptions cfg (sanitized V (req_body req))]"
    and "to_addr (mailOptions cfg (sanitized V (req_body req))) = JFalse"
proof -
  have e: "email (document V w req) = Some ''false''"
    by (simp add: document_eq assms(3) castString_simps)
  have "failed_paths (document V w req) = []"
    using assms(2,3)
    by (simp add: document_eq failed_paths_def required_missing_def castString_simps
        validation_errors_Nil_iff escape_empty_iff)
  then have "save (insert_failure w) (store s) (document V w req) =
      Inr (store s @ [document V w req])"
    by (simp add: save_def assms(4))
  from post_contact_saved [OF assms(1,2) this, of cfg]
  show "status (fst (post_contact V cfg w s req)) = 201"
    and "store (snd (post_contact V cfg w s req)) = store s @ [document V w req]"
    and "outbox (snd (post_contact V cfg w s req)) =
           outbox s @ [mailOptions cfg (sanitized V (req_body req))]"
    by simp_all
  show "email (document V w req) = Some ''false''"
    by (rule e)
  show "to_addr (mailOptions cfg (sanitized V (req_body req))) = JFalse"
    by (simp add: mailOptions_def sanitized_eq assms(3))
qed

lemma plus_foo_trimmed:
  "trim (toString (name (req_body plus_foo))) = ''Foo''"
  "trim (toString (email (req_body plus_foo))) = ''+foo@gmail.com''"
  "trim (toString (message (req_body plus_foo))) = ''Hello''"
  by (simp_all add: plus_foo_def toString_simps trim_def ltrim_def rtrim_def is_space_def)

lemma plus_foo_valid: "validation_errors sample_validator (req_body plus_foo) = []"
  by (simp add: validation_errors_Nil_iff plus_foo_trimmed sample_validator_def)

lemma plus_foo_given_up:
  "normalizeEmail sample_validator (trim (toString (email (req_body plus_foo)))) = JFalse"
  by (simp add: plus_foo_trimmed sample_validator_def)

lemma plus_foo_document:
  "document sample_validator w plus_foo =
     \<lparr>name = Some ''Foo'', email = Some ''false'', phone = None, topic = None,
      message = Some ''Hello'', object_id = new_id w, date = clock w\<rparr>"
  using plus_foo_given_up
  by (simp add: document_eq plus_foo_trimmed castString_simps escape_def)
    (simp add: plus_foo_def)

text \<open>
  C1. The claim fails on the route at a valid submission. The name \<open>Foo\<close>, the message
  \<open>Hello\<close> and the email \<open>+foo@gmail.com\<close> pass the chains, the limiter lets the request
  through and the insert succeeds: the answer is 201, and the record in the response
  and in the collection has the email \<open>false\<close>, not a normalized form of the submitted
  address.
\<close>

theorem false_email_stored:
  "validation_errors sample_validator (req_body plus_foo) = []
   \<and> fst (post_contact sample_validator sample_config sample_io init plus_foo) =
       \<lparr>status = 201,
        payload = Created ''Contact form submitted successfully!''
          \<lparr>name = Some ''Foo'', email = Some ''false'', phone = None, topic = None,
           message = Some ''Hello'', object_id = ''65f0c0ffee'', date = 0\<rparr>\<rparr>
   \<and> store (snd (post_contact sample_validator sample_config sample_io init plus_foo)) =
       [\<lparr>name = Some ''Foo'', email = Some ''false'', phone = None, topic = None,
         message = Some ''Hello'', object_id = ''65f0c0ffee'', date = 0\<rparr>]"
proof -
  have "save (insert_failure sample_io) (store init) (document sample_validator sample_io plus_foo) =
      Inr (store init @ [document sample_validator sample_io plus_foo])"
    unfolding plus_foo_document
    by (simp add: save_def failed_paths_def required_missing_def sample_io_def)
  from post_contact_saved [OF passes_init plus_foo_valid this, of sample_config]
  show ?thesis
    by (simp add: plus_foo_valid plus_foo_document sample_io_def init_def)
qed

lemma ann_valid: "validation_errors sample_validator (req_body ann) = []"
  by (simp add: validation_errors_Nil_iff ann_def toString_simps trim_examples
      sample_validator_def)

lemma ann_document_any:
  "document sample_validator w ann =
     \<lparr>name = Some ''Ann'', email = Some ''ann@example.com'', phone = None, topic = None,
      message = Some ''Hello'', object_id = new_id w, date = clock w\<rparr>"
  by (simp add: document_eq castString_simps ann_def
      sample_validator_def toString_simps trim_examples escape_def)

section \<open>Storage failure\<close>

text \<open>
  C5. A submission that passes the limiter and the validation chains and whose \<open>save\<close>
  fails is answered with 500, the generic message and the error; no mail is handed to
  the transporter and the collection is unchanged.
\<close>

theorem save_failure_server_error:
  assumes "passes s w req"
    and "validation_errors V (req_body req) = []"
    and "save (insert_failure w) (store s) (document V w req) = Inl err"
  shows "\<exists>s'. post_contact V cfg w s req =
           (\<lparr>status = 500, payload = Failed ''Failed to submit contact form.'' err\<rparr>, s')
         \<and> outbox s' = outbox s \<and> store s' = store s
         \<and> console s' = console s @ [ErrorSaving err]"
  using post_contact_save_failed [OF assms, of cfg] by simp

theorem save_failure_server_error_witness:
  "\<exists>s'. post_contact sample_validator sample_config
           (sample_io\<lparr>insert_failure := Some ''connection lost''\<rparr>) init ann =
           (\<lparr>status = 500,
             payload = Failed ''Failed to submit contact form.''
               (DriverError ''connection lost'')\<rparr>, s')
         \<and> outbox s' = [] \<and> store s' = []
         \<and> console s' = [ErrorSaving (DriverError ''connection lost'')]"
proof -
  have down: "save (insert_failure (sample_io\<lparr>insert_failure := Some ''connection lost''\<rparr>))
      (store init) (document sample_validator (sample_io\<lparr>insert_failure := Some ''connection lost''\<rparr>) ann)
      = Inl (DriverError ''connection lost'')"
    unfolding ann_document_any
    by (simp add: save_def failed_paths_def required_missing_def)
  show ?thesis
    using save_failure_server_error [OF passes_init ann_valid down, of sample_config]
    by (simp add: init_def)
qed

section \<open>Notification\<close>

text \<open>
  C6. When \<open>save\<close> succeeds and the transporter reports an error, the answer is 201 with
  the record, the record is in the collection, and the error is written to the console
  only. The response and the collection are the same whatever the transporter reports.
\<close>

theorem send_failure_isolated:
  assumes "passes s w req"
    and "validation_errors V (req_body req) = []"
    and "save (insert_failure w) (store s) (document V w req) = Inr docs"
    and "send_result w = Inl err"
  shows "\<exists>s'. post_contact V cfg w s req =
           (\<lparr>status = 201,
             payload = Created ''Contact form submitted successfully!'' (document V w req)\<rparr>,
            s')
         \<and> store s' = store s @ [document V w req]
         \<and> console s' = console s @ [ErrorSending err]
         \<and> (\<forall>r. fst (post_contact V cfg (w\<lparr>send_result := r\<rparr>) s req) =
                  fst (post_contact V cfg w s req)
                \<and> store (snd (post_contact V cfg (w\<lparr>send_result := r\<rparr>) s req)) = store s')"
proof -
  have here: "post_contact V cfg w s req =
      (\<lparr>status = 201,
        payload = Created ''Contact form submitted successfully!'' (document V w req)\<rparr>,
       s\<lparr>limiter := fst (contactLimiter (limiter s) (ip req) (clock w)),
         store := store s @ [document V w req],
         outbox := outbox s @ [mailOptions cfg (sanitized V (req_body req))],
         console := console s @ [sendMail_callback (send_result w)]\<rparr>)"
    by (rule post_contact_saved [OF assms(1-3)])
  have other: "post_contact V cfg (w\<lparr>send_result := r\<rparr>) s req =
      (\<lparr>status = 201,
        payload = Created ''Contact form submitted successfully!'' (document V w req)\<rparr>,
       s\<lparr>limiter := fst (contactLimiter (limiter s) (ip req) (clock w)),
         store := store s @ [document V w req],
         outbox := outbox s @ [mailOptions cfg (sanitized V (req_body req))],
         console := console s @ [sendMail_callback r]\<rparr>)" for r
  proof -
    have p: "passes s (w\<lparr>send_result := r\<rparr>) req"
      using assms(1) by (simp add: passes_def)
    have d: "document V (w\<lparr>send_result := r\<rparr>) req = document V w req"
      by (simp add: document_def)
    have sv: "save (insert_failure (w\<lparr>send_result := r\<rparr>)) (store s)
        (document V (w\<lparr>send_result := r\<rparr>) req) = Inr docs"
      using assms(3) by (simp add: d)
    show ?thesis
      using post_contact_saved [OF p assms(2) sv, of cfg] by (simp add: d)
  qed
  show ?thesis
    by (simp add: here other assms(4) sendMail_callback_def)
qed

theorem send_failure_isolated_witness:
  "\<exists>s'. post_contact sample_validator sample_config
           (sample_io\<lparr>send_result := Inl ''ECONNREFUSED''\<rparr>) init ann =
           (\<lparr>status = 201,
             payload = Created ''Contact form submitted successfully!''
               \<lparr>name = Some ''Ann'', email = Some ''ann@example.com'', phone = None,
                topic = None, message = Some ''Hello'', object_id = ''65f0c0ffee'',
                date = 0\<rparr>\<rparr>, s')
         \<and> store s' =
               [\<lparr>name = Some ''Ann'', email = Some ''ann@example.com'', phone = None,
                 topic = None, message = Some ''Hello'', object_id = ''65f0c0ffee'',
                 date = 0\<rparr>]
         \<and> console s' = [ErrorSending ''ECONNREFUSED'']"
proof -
  let ?w = "sample_io\<lparr>send_result := Inl ''ECONNREFUSED''\<rparr>"
  have sv: "save (insert_failure ?w) (store init) (document sample_validator ?w ann) =
      Inr [document sample_validator ?w ann]"
    unfolding ann_document_any
    by (simp add: save_def failed_paths_def required_missing_def sample_io_def init_def)
  have sr: "send_result ?w = Inl ''ECONNREFUSED''"
    by simp
  from send_failure_isolated [OF passes_init ann_valid sv sr, of sample_config]
  obtain s' where "post_contact sample_validator sample_config ?w init ann =
      (\<lparr>status = 201,
        payload = Created ''Contact form submitted successfully!''
          (document sample_validator ?w ann)\<rparr>, s')"
    and "store s' = store init @ [document sample_validator ?w ann]"
    and "console s' = console init @ [ErrorSending ''ECONNREFUSED'']"
    by blast
  then show ?thesis
    by (simp add: ann_document_any sample_io_def init_def)
qed

text \<open>
  For every library: when \<open>save\<close> succeeds, one mail is handed to the transporter, from
  the configured \<open>emailUser\<close>, with a plain text body made of the sanitized name, the
  sanitized topic (or \<open>N/A\<close> when the topic is undefined or empty) and the sanitized
  message. Its recipient is whatever \<open>normalizeEmail\<close> returned.
\<close>

lemma mail_composed:
  assumes "passes s w req"
    and "validation_errors V (req_body req) = []"
    and "save (insert_failure w) (store s) (document V w req) = Inr docs"
  shows "outbox (snd (post_contact V cfg w s req)) = outbox s @
           [\<lparr>from_addr = emailUser cfg,
             to_addr = normalizeEmail V (trim (toString (email (req_body req)))),
             subject = ''Contact Form Submission Confirmation'',
             text_body =
               ''Thank you for contacting us, '' @
               escape (trim (toString (name (req_body req)))) @ ''!'' @ nl @ nl @
               ''We have received your message and will get back to you shortly.'' @ nl @ nl @
               ''Your message details:'' @ nl @
               ''Topic: '' @
               (case topic (req_body req) of
                  None \<Rightarrow> ''N/A''
                | Some t \<Rightarrow> if escape (trim t) = [] then ''N/A'' else escape (trim t)) @ nl @
               ''Message: '' @ escape (trim (toString (message (req_body req)))) @ nl @ nl @
               ''Best regards,'' @ nl @
               ''The Contact Us Team''\<rparr>]"
  using post_contact_saved [OF assms, of cfg]
  by (simp add: sanitized_eq mailOptions_def interpolate_def topic_or_na_def
      split: option.splits)

text \<open>
  C8. The claim fails on the route at a submission whose \<open>save\<close> succeeds. For the email
  \<open>+foo@gmail.com\<close>, which passes the chains, the mail handed to the transporter has the
  recipient \<open>false\<close>: it is not addressed to the submitter's address.
\<close>

theorem confirmation_to_false:
  "store (snd (post_contact sample_validator sample_config sample_io init plus_foo)) \<noteq>
     store init
   \<and> outbox (snd (post_contact sample_validator sample_config sample_io init plus_foo)) =
     [\<lparr>from_addr = Some ''desk@example.com'',
       to_addr = JFalse,
       subject = ''Contact Form Submission Confirmation'',
       text_body =
         ''Thank you for contacting us, Foo!'' @ nl @ nl @
         ''We have received your message and will get back to you shortly.'' @ nl @ nl @
         ''Your message details:'' @ nl @
         ''Topic: N/A'' @ nl @
         ''Message: Hello'' @ nl @ nl @
         ''Best regards,'' @ nl @
         ''The Contact Us Team''\<rparr>]"
proof -
  have w: "insert_failure sample_io = None"
    by (simp add: sample_io_def)
  have t: "topic (req_body plus_foo) = None"
    by (simp add: plus_foo_def)
  have e: "escape ''Foo'' = ''Foo''" "escape ''Hello'' = ''Hello''"
    by (simp_all add: escape_def)
  have o: "outbox init = []" "emailUser sample_config = Some ''desk@example.com''"
    by (simp_all add: init_def sample_config_def)
  note written = false_email_accepted(2)
    [OF passes_init plus_foo_valid plus_foo_given_up w, of sample_config]
  have "save (insert_failure sample_io) (store init) (document sample_validator sample_io plus_foo) =
      Inr (store init @ [document sample_validator sample_io plus_foo])"
    unfolding plus_foo_document
    by (simp add: save_def failed_paths_def required_missing_def sample_io_def)
  from mail_composed [OF passes_init plus_foo_valid this, of sample_config]
  have "outbox (snd (post_contact sample_validator sample_config sample_io init plus_foo)) =
     [\<lparr>from_addr = Some ''desk@example.com'',
       to_addr = JFalse,
       subject = ''Contact Form Submission Confirmation'',
       text_body =
         ''Thank you for contacting us, Foo!'' @ nl @ nl @
         ''We have received your message and will get back to you shortly.'' @ nl @ nl @
         ''Your message details:'' @ nl @
         ''Topic: N/A'' @ nl @
         ''Message: Hello'' @ nl @ nl @
         ''Best regards,'' @ nl @
         ''The Contact Us Team''\<rparr>]"
    unfolding plus_foo_trimmed plus_foo_given_up [unfolded plus_foo_trimmed] t e o by simp
  with written show ?thesis
    by simp
qed

lemma save_None: "failed_paths doc = [] \<Longrightarrow> save None docs doc = Inr (docs @ [doc])"
  by (simp add: save_def)

lemma tagged_valid: "validation_errors sample_validator (req_body tagged) = []"
  by (simp add: validation_errors_Nil_iff tagged_def toString_simps trim_examples
      sample_validator_def trim_def ltrim_def rtrim_def is_space_def)

lemma tagged_document:
  "document sample_validator w tagged =
     \<lparr>name = Some ''&lt;b&gt;Ann&lt;&#x2F;b&gt;'', email = Some ''a@b.com'', phone = None,
      topic = Some ''R&amp;D'', message = Some ''is 1&lt;2?'',
      object_id = new_id w, date = clock w\<rparr>"
  by (simp add: document_eq castString_simps tagged_def
      sample_validator_def toString_simps trim_def ltrim_def rtrim_def is_space_def escape_def)

lemma tagged_save:
  "save (insert_failure sample_io) (store init) (document sample_validator sample_io tagged) =
     Inr [document sample_validator sample_io tagged]"
  unfolding tagged_document
  by (simp add: save_def failed_paths_def required_missing_def sample_io_def init_def)

section \<open>Sanitized values in the record, the response and the mail\<close>

text \<open>
  C10. On a successful submission the record in the collection, the contact of the 201
  response and the body of the mail all hold the sanitized values: name, topic and
  message trimmed and escaped. Escaping maps each character on its own, the
  markup-significant ones to their entities, and leaves none of \<open><\<close>, \<open>>\<close>, the quotes,
  the slash, the backslash and the backtick behind.
\<close>

theorem sanitized_values_everywhere:
  assumes "passes s w req"
    and "validation_errors V (req_body req) = []"
    and "save (insert_failure w) (store s) (document V w req) = Inr docs"
  shows "\<exists>s' c m.
           post_contact V cfg w s req =
             (\<lparr>status = 201, payload = Created ''Contact form submitted successfully!'' c\<rparr>, s')
         \<and> store s' = store s @ [c] \<and> outbox s' = outbox s @ [m]
         \<and> name c = Some (escape (trim (toString (name (req_body req)))))
         \<and> topic c = map_option (\<lambda>t. escape (trim t)) (topic (req_body req))
         \<and> message c = Some (escape (trim (toString (message (req_body req)))))
         \<and> text_body m =
              ''Thank you for contacting us, '' @
              escape (trim (toString (name (req_body req)))) @ ''!'' @ nl @ nl @
              ''We have received your message and will get back to you shortly.'' @ nl @ nl @
              ''Your message details:'' @ nl @
              ''Topic: '' @
              (case topic (req_body req) of
                 None \<Rightarrow> ''N/A''
               | Some t \<Rightarrow> if escape (trim t) = [] then ''N/A'' else escape (trim t)) @ nl @
              ''Message: '' @ escape (trim (toString (message (req_body req)))) @ nl @ nl @
              ''Best regards,'' @ nl @
              ''The Contact Us Team''
         \<and> (\<forall>str. escape str = concat (map escape_char str))
         \<and> (\<forall>str. set (escape str) \<inter> markup = {})"
proof -
  have "\<forall>str. escape str = concat (map escape_char str)"
    using escape_concat by blast
  moreover have "\<forall>str. set (escape str) \<inter> markup = {}"
    using escape_markup_free by blast
  moreover have "text_body (mailOptions cfg (sanitized V (req_body req))) =
      ''Thank you for contacting us, '' @
      escape (trim (toString (name (req_body req)))) @ ''!'' @ nl @ nl @
      ''We have received your message and will get back to you shortly.'' @ nl @ nl @
      ''Your message details:'' @ nl @
      ''Topic: '' @
      (case topic (req_body req) of
         None \<Rightarrow> ''N/A''
       | Some t \<Rightarrow> if escape (trim t) = [] then ''N/A'' else escape (trim t)) @ nl @
      ''Message: '' @ escape (trim (toString (message (req_body req)))) @ nl @ nl @
      ''Best regards,'' @ nl @
      ''The Contact Us Team''"
    by (simp add: mailOptions_def sanitized_eq interpolate_def topic_or_na_def
        split: option.splits)
  moreover have "name (document V w req) = Some (escape (trim (toString (name (req_body req)))))"
    "topic (document V w req) = map_option (\<lambda>t. escape (trim t)) (topic (req_body req))"
    "message (document V w req) = Some (escape (trim (toString (message (req_body req)))))"
    by (simp_all add: document_eq castString_simps)
  ultimately show ?thesis
    using post_contact_saved [OF assms, of cfg] by simp
qed

theorem sanitized_values_everywhere_witness:
  "\<exists>s' m. post_contact sample_validator sample_config sample_io init tagged =
           (\<lparr>status = 201,
             payload = Created ''Contact form submitted successfully!''
               \<lparr>name = Some ''&lt;b&gt;Ann&lt;&#x2F;b&gt;'', email = Some ''a@b.com'',
                phone = None, topic = Some ''R&amp;D'', message = Some ''is 1&lt;2?'',
                object_id = ''65f0c0ffee'', date = 0\<rparr>\<rparr>, s')
         \<and> store s' =
               [\<lparr>name = Some ''&lt;b&gt;Ann&lt;&#x2F;b&gt;'', email = Some ''a@b.com'',
                 phone = None, topic = Some ''R&amp;D'', message = Some ''is 1&lt;2?'',
                 object_id = ''65f0c0ffee'', date = 0\<rparr>]
         \<and> outbox s' = [m]
         \<and> text_body m =
              ''Thank you for contacting us, &lt;b&gt;Ann&lt;&#x2F;b&gt;!'' @ nl @ nl @
              ''We have received your message and will get back to you shortly.'' @ nl @ nl @
              ''Your message details:'' @ nl @
              ''Topic: R&amp;D'' @ nl @
              ''Message: is 1&lt;2?'' @ nl @ nl @
              ''Best regards,'' @ nl @
              ''The Contact Us Team''"
proof -
  have n: "escape (trim (toString (name (req_body tagged)))) = ''&lt;b&gt;Ann&lt;&#x2F;b&gt;''"
    and t: "topic (req_body tagged) = Some ''R&D''"
    and t': "escape (trim ''R&D'') = ''R&amp;D''"
    and m: "escape (trim (toString (message (req_body tagged)))) = ''is 1&lt;2?''"
    by (simp_all add: tagged_def toString_simps trim_def ltrim_def rtrim_def is_space_def
        escape_def)
  from sanitized_values_everywhere [OF passes_init tagged_valid tagged_save, of sample_config]
  obtain s' c m where
    "post_contact sample_validator sample_config sample_io init tagged =
       (\<lparr>status = 201, payload = Created ''Contact form submitted successfully!'' c\<rparr>, s')"
    "store s' = store init @ [c]" "outbox s' = outbox init @ [m]"
    "text_body m =
       ''Thank you for contacting us, '' @
       escape (trim (toString (name (req_body tagged)))) @ ''!'' @ nl @ nl @
       ''We have received your message and will get back to you shortly.'' @ nl @ nl @
       ''Your message details:'' @ nl @
       ''Topic: '' @
       (case topic (req_body tagged) of
          None \<Rightarrow> ''N/A''
        | Some t \<Rightarrow> if escape (trim t) = [] then ''N/A'' else escape (trim t)) @ nl @
       ''Message: '' @ escape (trim (toString (message (req_body tagged)))) @ nl @ nl @
       ''Best regards,'' @ nl @
       ''The Contact Us Team''"
    by blast
  moreover have "c = document sample_validator sample_io tagged"
    using calculation(1) post_contact_saved [OF passes_init tagged_valid tagged_save, of sample_config]
    by simp
  ultimately show ?thesis
    by (simp add: n t t' m tagged_document sample_io_def init_def)
qed


section \<open>Sequences of requests\<close>

lemma post_contact_cases:
  obtains (limited) "\<not> passes s w req"
  | (invalid) "passes s w req" "validation_errors V (req_body req) \<noteq> []"
  | (refused) err where "passes s w req" "validation_errors V (req_body req) = []"
      "save (insert_failure w) (store s) (document V w req) = Inl err"
  | (saved) docs where "passes s w req" "validation_errors V (req_body req) = []"
      "save (insert_failure w) (store s) (document V w req) = Inr docs"
  by (cases "save (insert_failure w) (store s) (document V w req)") blast+

lemma post_contact_store:
  "post_contact V cfg w s req = (r, s') \<Longrightarrow>
   store s' = store s @ (if status r = 201 then [document V w req] else [])"
proof (cases rule: post_contact_cases [where s = s and w = w and req = req and V = V])
  case limited
  assume "post_contact V cfg w s req = (r, s')"
  with post_contact_limited [OF limited, of V cfg] show ?thesis by auto
next
  case invalid
  assume "post_contact V cfg w s req = (r, s')"
  with post_contact_invalid [OF invalid, of cfg] show ?thesis by auto
next
  case (refused err)
  assume "post_contact V cfg w s req = (r, s')"
  with post_contact_save_failed [OF refused, of cfg] show ?thesis by auto
next
  case (saved docs)
  assume "post_contact V cfg w s req = (r, s')"
  with post_contact_saved [OF saved, of cfg] show ?thesis by auto
qed

lemma post_contact_created:
  "post_contact V cfg w s req = (r, s') \<Longrightarrow> status r = 201 \<Longrightarrow>
   validation_errors V (req_body req) = [] \<and> failed_paths (document V w req) = []"
proof (cases rule: post_contact_cases [where s = s and w = w and req = req and V = V])
  case limited
  assume "post_contact V cfg w s req = (r, s')" "status r = 201"
  with post_contact_limited [OF limited, of V cfg] show ?thesis by auto
next
  case invalid
  assume "post_contact V cfg w s req = (r, s')" "status r = 201"
  with post_contact_invalid [OF invalid, of cfg] show ?thesis by auto
next
  case (refused err)
  assume "post_contact V cfg w s req = (r, s')" "status r = 201"
  with post_contact_save_failed [OF refused, of cfg] show ?thesis by auto
next
  case (saved docs)
  then show ?thesis by (simp add: save_def split: if_splits)
qed

lemma get_contacts_store: "store (snd (get_contacts failure s)) = store s"
  by (simp add: get_contacts_def find_all_def split: option.splits)

lemma get_contacts_status: "status (fst (get_contacts failure s)) \<noteq> 201"
  by (simp add: get_contacts_def find_all_def split: option.splits)

lemma step_store: "step V cfg s e = (r, s') \<Longrightarrow> store s' = store s @ created V e r"
proof (cases e)
  case (Post w req)
  assume "step V cfg s e = (r, s')"
  with Post show ?thesis using post_contact_store [of V cfg w s req r s'] by simp
next
  case (Get failure)
  assume "step V cfg s e = (r, s')"
  with Get show ?thesis using get_contacts_store [of failure s] by simp
qed

lemma run_Cons:
  "run V cfg s (e # es) = (rs, s'') \<longleftrightarrow>
     (\<exists>r s' rs'. step V cfg s e = (r, s') \<and> run V cfg s' es = (rs', s'') \<and> rs = r # rs')"
  by (cases "step V cfg s e"; cases "run V cfg (snd (step V cfg s e)) es") auto

lemma run_length: "run V cfg s evs = (rs, s') \<Longrightarrow> length rs = length evs"
  by (induction evs arbitrary: s rs) (auto simp: run_Cons simp del: run.simps(2))

lemma run_store:
  "run V cfg s evs = (rs, s') \<Longrightarrow> store s' = store s @ concat (map2 (created V) evs rs)"
proof (induction evs arbitrary: s rs)
  case Nil
  then show ?case by simp
next
  case (Cons e es)
  from Cons.prems obtain r s1 rs' where
    st: "step V cfg s e = (r, s1)" and rn: "run V cfg s1 es = (rs', s')" and rs: "rs = r # rs'"
    by (auto simp: run_Cons simp del: run.simps(2))
  from Cons.IH [OF rn] step_store [OF st] rs show ?case by simp
qed

lemma created_length:
  "length (created V e r) = (if is_post e \<and> status r = 201 then 1 else 0)"
  by (cases e) simp_all

lemma concat_created_length:
  "length rs = length evs \<Longrightarrow>
   length (concat (map2 (created V) evs rs)) =
     length (filter (\<lambda>(e, r). is_post e \<and> status r = 201) (zip evs rs))"
proof (induction evs arbitrary: rs)
  case Nil
  then show ?case by simp
next
  case (Cons e es)
  then obtain r rs' where "rs = r # rs'" "length rs' = length es"
    by (cases rs) auto
  with Cons.IH [of rs'] show ?case by (simp add: created_length)
qed

lemma nameless_errors:
  "validation_errors sample_validator (req_body nameless) =
     [\<lparr>msg = ''Name is required'', param = ''name'', location = ''body''\<rparr>]"
  by (simp add: validation_errors_eq nameless_def toString_simps trim_examples
      sample_validator_def)

lemma post_contact_status:
  "status (fst (post_contact V cfg w s req)) =
     (if \<not> passes s w req then 429
      else if validation_errors V (req_body req) \<noteq> [] then 400
      else if failed_paths (document V w req) \<noteq> [] \<or> insert_failure w \<noteq> None then 500
      else 201)"
proof (cases rule: post_contact_cases [where s = s and w = w and req = req and V = V])
  case limited
  with post_contact_limited [OF limited, of V cfg] show ?thesis by simp
next
  case invalid
  with post_contact_invalid [OF invalid, of cfg] show ?thesis by simp
next
  case (refused err)
  with post_contact_save_failed [OF refused, of cfg] show ?thesis
    by (auto simp: save_def split: if_splits option.splits)
next
  case (saved docs)
  with post_contact_saved [OF saved, of cfg] show ?thesis
    by (auto simp: save_def split: if_splits option.splits)
qed

lemma post_contact_limiter:
  "limiter (snd (post_contact V cfg w s req)) =
     fst (contactLimiter (limiter s) (ip req) (clock w))"
proof (cases rule: post_contact_cases [where s = s and w = w and req = req and V = V])
  case limited
  with post_contact_limited [OF limited, of V cfg] show ?thesis by simp
next
  case invalid
  with post_contact_invalid [OF invalid, of cfg] show ?thesis by simp
next
  case (refused err)
  with post_contact_save_failed [OF refused, of cfg] show ?thesis by simp
next
  case (saved docs)
  with post_contact_saved [OF saved, of cfg] show ?thesis by simp
qed

lemma get_contacts_limiter: "limiter (snd (get_contacts failure s)) = limiter s"
  by (simp add: get_contacts_def find_all_def split: option.splits)

lemma get_contacts_found: "status (fst (get_contacts None s)) = 200"
  by (simp add: get_contacts_def find_all_def)

lemma run_statuses:
  "map status (fst (run V cfg s (e # es))) =
     status (fst (step V cfg s e)) # map status (fst (run V cfg (snd (step V cfg s e)) es))"
  by (cases "step V cfg s e"; cases "run V cfg (snd (step V cfg s e)) es") simp

lemma session_statuses:
  "map status (fst (run sample_validator sample_config init session)) = [201, 400, 200, 201]"
proof -
  have a: "failed_paths (document sample_validator sample_io ann) = []"
    and t: "failed_paths (document sample_validator later_io tagged) = []"
    by (simp_all add: ann_document_any tagged_document failed_paths_def required_missing_def)
  have w: "insert_failure sample_io = None" "insert_failure later_io = None"
    "clock sample_io = 0" "clock later_io = 60000"
    by (simp_all add: sample_io_def later_io_def)
  have i: "ip ann = ''10.0.0.1''" "ip nameless = ''10.0.0.1''" "ip tagged = ''10.0.0.2''"
    by (simp_all add: ann_def nameless_def tagged_def)
  show ?thesis
    unfolding session_def run_statuses
    by (simp del: run.simps(2)
        add: post_contact_status post_contact_limiter get_contacts_limiter get_contacts_found
          passes_def contactLimiter_def increment_def init_def max_requests_def
          ann_valid nameless_errors tagged_valid a t w i)
qed

section \<open>Listing\<close>

text \<open>
  C7. After any sequence of requests served from the empty collection, the collection
  holds exactly the documents of the submissions answered with 201, in order, each the
  sanitized form of its request; their number is the number of those answers, and a
  listing that reads the collection returns exactly them with status 200. No request
  changes or removes a record that is already there: the old collection is a prefix
  of the new one, and a listing leaves it as it is.
\<close>

theorem list_returns_submitted:
  assumes "run V cfg init evs = (rs, s)"
  shows "store s = concat (map2 (created V) evs rs)
       \<and> length (store s) =
           length (filter (\<lambda>(e, r). is_post e \<and> status r = 201) (zip evs rs))
       \<and> get_contacts None s = (\<lparr>status = 200, payload = Contacts (store s)\<rparr>, s)
       \<and> (\<forall>e. take (length (store s)) (store (snd (step V cfg s e))) = store s)
       \<and> (\<forall>failure. store (snd (get_contacts failure s)) = store s)"
proof -
  have a: "store s = concat (map2 (created V) evs rs)"
    using run_store [OF assms] by (simp add: init_def)
  have b: "length (store s) =
      length (filter (\<lambda>(e, r). is_post e \<and> status r = 201) (zip evs rs))"
    unfolding a by (rule concat_created_length [OF run_length [OF assms]])
  have c: "get_contacts None s = (\<lparr>status = 200, payload = Contacts (store s)\<rparr>, s)"
    by (simp add: get_contacts_def find_all_def)
  have d: "take (length (store s)) (store (snd (step V cfg s e))) = store s" for e
    using step_store [of V cfg s e "fst (step V cfg s e)" "snd (step V cfg s e)"] by simp
  show ?thesis
    using a b c d get_contacts_store by blast
qed


theorem list_returns_submitted_witness:
  "store (snd (run sample_validator sample_config init session)) =
     [\<lparr>name = Some ''Ann'', email = Some ''ann@example.com'', phone = None, topic = None,
       message = Some ''Hello'', object_id = ''65f0c0ffee'', date = 0\<rparr>,
      \<lparr>name = Some ''&lt;b&gt;Ann&lt;&#x2F;b&gt;'', email = Some ''a@b.com'', phone = None,
       topic = Some ''R&amp;D'', message = Some ''is 1&lt;2?'',
       object_id = ''65f0c0ffef'', date = 60000\<rparr>]
   \<and> fst (get_contacts None (snd (run sample_validator sample_config init session))) =
       \<lparr>status = 200,
        payload = Contacts (store (snd (run sample_validator sample_config init session)))\<rparr>"
proof -
  obtain rs s where r: "run sample_validator sample_config init session = (rs, s)"
    by (cases "run sample_validator sample_config init session")
  from session_statuses r have st: "map status rs = [201, 400, 200, 201]"
    by simp
  then obtain r1 r2 r3 r4 where rs: "rs = [r1, r2, r3, r4]"
    and "status r1 = 201" "status r2 = 400" "status r3 = 200" "status r4 = 201"
    by (auto simp: map_eq_Cons_conv)
  with list_returns_submitted [OF r] have a: "store s =
     [\<lparr>name = Some ''Ann'', email = Some ''ann@example.com'', phone = None, topic = None,
       message = Some ''Hello'', object_id = ''65f0c0ffee'', date = 0\<rparr>,
      \<lparr>name = Some ''&lt;b&gt;Ann&lt;&#x2F;b&gt;'', email = Some ''a@b.com'', phone = None,
       topic = Some ''R&amp;D'', message = Some ''is 1&lt;2?'',
       object_id = ''65f0c0ffef'', date = 60000\<rparr>]"
    by (simp add: session_def ann_document_any tagged_document sample_io_def later_io_def)
  from list_returns_submitted [OF r]
  have b: "get_contacts None s = (\<lparr>status = 200, payload = Contacts (store s)\<rparr>, s)"
    by blast
  show ?thesis
    unfolding r by (simp add: a b)
qed


section \<open>The limiter over a sequence of requests\<close>

lemma increment_live:
  "h a = Some (n, rt) \<Longrightarrow> t < rt \<Longrightarrow> increment h a t = (h(a \<mapsto> (n + 1, rt)), n + 1)"
  by (simp add: increment_def)

lemma increment_new:
  "(case h a of None \<Rightarrow> True | Some (n, rt) \<Rightarrow> rt \<le> t) \<Longrightarrow>
   increment h a t = (h(a \<mapsto> (1, t + windowMs)), 1)"
  by (auto simp: increment_def split: option.splits)

lemma increment_other: "k \<noteq> a \<Longrightarrow> fst (increment h k t) a = h a"
  by (simp add: increment_def split: option.splits)

lemma contactLimiter_fst: "fst (contactLimiter h k t) = fst (increment h k t)"
  by (cases "increment h k t") (simp add: contactLimiter_def)

lemma contactLimiter_snd: "snd (contactLimiter h k t) \<longleftrightarrow> snd (increment h k t) \<le> max_requests"
  by (cases "increment h k t") (simp add: contactLimiter_def)

lemma passes_live:
  "limiter s (ip req) = Some (n, rt) \<Longrightarrow> clock w < rt \<Longrightarrow> passes s w req \<longleftrightarrow> n < max_requests"
  by (auto simp: passes_def contactLimiter_snd increment_live)

lemma passes_new: "no_window s (ip req) (clock w) \<Longrightarrow> passes s w req"
  by (simp add: passes_def contactLimiter_snd increment_new no_window_def max_requests_def)

lemma step_limiter_live:
  "limiter s a = Some (n, rt) \<Longrightarrow> from_ip a e \<Longrightarrow> time_of e < rt \<Longrightarrow>
   limiter (snd (step V cfg s e)) a = Some (n + 1, rt)"
  by (cases e) (auto simp: post_contact_limiter contactLimiter_fst increment_live)

lemma step_limiter_new:
  "no_window s a (time_of e) \<Longrightarrow> from_ip a e \<Longrightarrow>
   limiter (snd (step V cfg s e)) a = Some (1, time_of e + windowMs)"
  by (cases e) (auto simp: post_contact_limiter contactLimiter_fst increment_new no_window_def)

lemma step_limiter_other:
  "\<not> from_ip a e \<Longrightarrow> limiter (snd (step V cfg s e)) a = limiter s a"
  by (cases e)
     (auto simp: post_contact_limiter contactLimiter_fst increment_other get_contacts_limiter)

lemma run_snd_Cons: "snd (run V cfg s (e # es)) = snd (run V cfg (snd (step V cfg s e)) es)"
  by (cases "step V cfg s e"; cases "run V cfg (snd (step V cfg s e)) es") simp

lemma run_limiter_count:
  "limiter s a = Some (n, rt) \<Longrightarrow> \<forall>e\<in>set evs. from_ip a e \<longrightarrow> time_of e < rt \<Longrightarrow>
   limiter (snd (run V cfg s evs)) a = Some (n + length (filter (from_ip a) evs), rt)"
proof (induction evs arbitrary: s n)
  case Nil
  then show ?case by simp
next
  case (Cons e es)
  show ?case
  proof (cases "from_ip a e")
    case True
    with Cons.prems have "limiter (snd (step V cfg s e)) a = Some (n + 1, rt)"
      by (simp add: step_limiter_live)
    from Cons.IH [OF this] Cons.prems(2) True show ?thesis
      by (simp add: run_snd_Cons del: run.simps(2))
  next
    case False
    with Cons.prems have "limiter (snd (step V cfg s e)) a = Some (n, rt)"
      by (simp add: step_limiter_other)
    from Cons.IH [OF this] Cons.prems(2) False show ?thesis
      by (simp add: run_snd_Cons del: run.simps(2))
  qed
qed

lemma window_count:
  assumes "no_window s a (clock w1)" and "ip r1 = a"
    and "\<forall>e\<in>set mid. from_ip a e \<longrightarrow> time_of e < clock w1 + windowMs"
  shows "limiter (snd (run V cfg s (Post w1 r1 # mid))) a =
           Some (1 + length (filter (from_ip a) mid), clock w1 + windowMs)"
proof -
  have "limiter (snd (step V cfg s (Post w1 r1))) a = Some (1, clock w1 + windowMs)"
    using step_limiter_new [of s a "Post w1 r1" V cfg] assms(1,2) by simp
  from run_limiter_count [OF this assms(3)] show ?thesis
    by (simp add: run_snd_Cons del: run.simps(2))
qed

lemma burst_window:
  "no_window init a (clock sample_io)"
  "\<forall>e\<in>set (replicate 9 (Post sample_io req)). from_ip a e \<longrightarrow> time_of e < clock sample_io + windowMs"
  "length (filter (from_ip (ip req)) (replicate 9 (Post sample_io req))) = 9"
  by (simp_all add: no_window_def init_def sample_io_def windowMs_def)

lemma burst_run:
  "run sample_validator sample_config init (Post sample_io req # replicate 9 (Post sample_io req)) =
     (fst (run sample_validator sample_config init (burst req)), after_burst req)"
  by (simp add: burst_def after_burst_def del: run.simps(2))

lemma ann_saved_anywhere:
  "save (insert_failure after_window_io) docs (document sample_validator after_window_io ann) =
     Inr (docs @ [document sample_validator after_window_io ann])"
  unfolding ann_document_any
  by (simp add: save_def failed_paths_def required_missing_def after_window_io_def)

section \<open>Rate limiting\<close>

text \<open>
  C4. The window is 15 minutes and the limit 10. Let a client open a window with a
  submission and send nine more within it, other clients' requests in between or not.
  Its next submission within the window, the eleventh, is answered with 429 and the
  limiter's message as a plain string. Its first submission once the window has
  elapsed, with valid fields and a \<open>save\<close> that succeeds, is answered with 201.
\<close>

theorem eleventh_limited_twelfth_served:
  assumes "no_window s a (clock w1)" and "ip r1 = a"
    and "\<forall>e\<in>set mid. from_ip a e \<longrightarrow> time_of e < clock w1 + windowMs"
    and "length (filter (from_ip a) mid) = 9"
    and "run V cfg s (Post w1 r1 # mid) = (rs, s10)"
    and "ip r11 = a" and "clock w11 < clock w1 + windowMs"
    and "post_contact V cfg w11 s10 r11 = (resp11, s11)"
    and "\<forall>e\<in>set later. \<not> from_ip a e" and "run V cfg s11 later = (rs', s12)"
    and "ip r12 = a" and "clock w1 + windowMs \<le> clock w12"
    and "validation_errors V (req_body r12) = []"
    and "save (insert_failure w12) (store s12) (document V w12 r12) = Inr docs"
  shows "windowMs = 15 * 60 * 1000 \<and> max_requests = 10
       \<and> resp11 = \<lparr>status = 429, payload = Plain limit_message\<rparr>
       \<and> fst (post_contact V cfg w12 s12 r12) =
           \<lparr>status = 201,
            payload = Created ''Contact form submitted successfully!'' (document V w12 r12)\<rparr>"
proof -
  have l10: "limiter s10 a = Some (10, clock w1 + windowMs)"
    using window_count [OF assms(1-3), of V cfg] assms(4,5) by simp
  have "\<not> passes s10 w11 r11"
    using passes_live [of s10 r11 10 "clock w1 + windowMs" w11] l10 assms(6,7)
    by (simp add: max_requests_def)
  from post_contact_limited [OF this, of V cfg] assms(8)
  have r11: "resp11 = \<lparr>status = 429, payload = Plain limit_message\<rparr>"
    and s11: "s11 = s10\<lparr>limiter := fst (contactLimiter (limiter s10) (ip r11) (clock w11))\<rparr>"
    by simp_all
  have l11: "limiter s11 a = Some (11, clock w1 + windowMs)"
    using l10 assms(6,7) by (simp add: s11 contactLimiter_fst increment_live)
  have "\<forall>e\<in>set later. from_ip a e \<longrightarrow> time_of e < clock w1 + windowMs"
    using assms(9) by blast
  from run_limiter_count [OF l11 this, of V cfg] assms(9,10)
  have "limiter s12 a = Some (11, clock w1 + windowMs)"
    by (simp add: filter_False)
  then have "no_window s12 (ip r12) (clock w12)"
    using assms(11,12) by (simp add: no_window_def)
  from post_contact_saved [OF passes_new [OF this] assms(13,14), of cfg] r11 show ?thesis
    by (simp add: windowMs_def max_requests_def)
qed


theorem eleventh_limited_twelfth_served_witness:
  "fst (post_contact sample_validator sample_config later_io (after_burst ann) ann) =
     \<lparr>status = 429,
      payload = Plain
        ''Too many contact form submissions from this IP, please try again after 15 minutes''\<rparr>
   \<and> fst (post_contact sample_validator sample_config after_window_io
          (snd (post_contact sample_validator sample_config later_io (after_burst ann) ann)) ann) =
     \<lparr>status = 201,
      payload = Created ''Contact form submitted successfully!''
        \<lparr>name = Some ''Ann'', email = Some ''ann@example.com'', phone = None, topic = None,
         message = Some ''Hello'', object_id = ''65f0c0fff0'', date = 900000\<rparr>\<rparr>"
proof -
  let ?s11 = "snd (post_contact sample_validator sample_config later_io (after_burst ann) ann)"
  have h7: "clock later_io < clock sample_io + windowMs"
    and h12: "clock sample_io + windowMs \<le> clock after_window_io"
    by (simp_all add: later_io_def sample_io_def after_window_io_def windowMs_def)
  have h8: "post_contact sample_validator sample_config later_io (after_burst ann) ann =
      (fst (post_contact sample_validator sample_config later_io (after_burst ann) ann), ?s11)"
    by simp
  have h9: "\<forall>e\<in>set []. \<not> from_ip (ip ann) e"
    and h10: "run sample_validator sample_config ?s11 [] = ([], ?s11)"
    by simp_all
  note served = eleventh_limited_twelfth_served
    [OF burst_window(1) refl burst_window(2) burst_window(3) burst_run refl h7 h8 h9 h10
      refl h12 ann_valid ann_saved_anywhere]
  from served
  have a: "fst (post_contact sample_validator sample_config later_io (after_burst ann) ann) =
      \<lparr>status = 429, payload = Plain limit_message\<rparr>"
    by blast
  from served
  have b: "fst (post_contact sample_validator sample_config after_window_io ?s11 ann) =
      \<lparr>status = 201,
       payload = Created ''Contact form submitted successfully!''
         (document sample_validator after_window_io ann)\<rparr>"
    by blast
  show ?thesis
    unfolding a b by (simp add: limit_message_def ann_document_any after_window_io_def)
qed


lemma after_burst_limiter:
  "limiter (after_burst req) (ip req) = Some (10, 900000)"
  using window_count [OF burst_window(1) refl burst_window(2),
      where ?r1.0 = req and req1 = req and V = sample_validator and cfg = sample_config]
  by (simp add: burst_window(3) after_burst_def burst_def sample_io_def windowMs_def
      del: run.simps(2))

lemma after_burst_limited:
  "ip req' = ip req \<Longrightarrow> clock w < 900000 \<Longrightarrow> \<not> passes (after_burst req) w req'"
  using passes_live [of "after_burst req" req' 10 900000 w] after_burst_limiter [of req]
  by (simp add: max_requests_def)

lemma run_fst_Cons:
  "fst (run V cfg s (e # es)) = fst (step V cfg s e) # fst (run V cfg (snd (step V cfg s e)) es)"
  by (cases "step V cfg s e"; cases "run V cfg (snd (step V cfg s e)) es") simp

lemma invalid_statuses:
  "limiter s a = Some (n, rt) \<Longrightarrow>
   \<forall>e\<in>set evs. \<exists>w req. e = Post w req \<and> ip req = a \<and> clock w < rt \<and>
     validation_errors V (req_body req) \<noteq> [] \<Longrightarrow>
   n + length evs \<le> max_requests \<Longrightarrow>
   \<forall>r\<in>set (fst (run V cfg s evs)). status r = 400"
proof (induction evs arbitrary: s n)
  case Nil
  then show ?case by simp
next
  case (Cons e es)
  from Cons.prems(2) obtain w req where e: "e = Post w req" "ip req = a" "clock w < rt"
    "validation_errors V (req_body req) \<noteq> []"
    by auto
  have "passes s w req"
    using passes_live [of s req n rt w] Cons.prems(1,3) e by simp
  then have here: "status (fst (step V cfg s e)) = 400"
    using e by (simp add: post_contact_status)
  have "limiter (snd (step V cfg s e)) a = Some (n + 1, rt)"
    using step_limiter_live [of s a n rt e V cfg] Cons.prems(1) e by simp
  from Cons.IH [OF this] Cons.prems(2,3)
  have "\<forall>r\<in>set (fst (run V cfg (snd (step V cfg s e)) es)). status r = 400"
    by simp
  with here show ?case
    by (simp add: run_fst_Cons del: run.simps(2))
qed

lemma nameless_burst_statuses:
  "\<forall>r\<in>set (fst (run sample_validator sample_config init (burst nameless))). status r = 400"
proof -
  let ?e = "Post sample_io nameless"
  have bad: "validation_errors sample_validator (req_body nameless) \<noteq> []"
    by (simp add: nameless_errors)
  have "passes init sample_io nameless"
    by (rule passes_init)
  then have first: "status (fst (step sample_validator sample_config init ?e)) = 400"
    using bad by (simp add: post_contact_status)
  have "limiter (snd (step sample_validator sample_config init ?e)) (ip nameless) =
      Some (1, clock sample_io + windowMs)"
    using step_limiter_new [of init "ip nameless" ?e] burst_window(1) by simp
  from invalid_statuses [OF this, of "replicate 9 ?e" sample_validator sample_config]
  have "\<forall>r\<in>set (fst (run sample_validator sample_config
      (snd (step sample_validator sample_config init ?e)) (replicate 9 ?e))). status r = 400"
    using bad by (simp add: max_requests_def windowMs_def)
  with first show ?thesis
    by (simp add: burst_def run_fst_Cons del: run.simps(2))
qed

lemma map_constant: "\<forall>x\<in>set xs. f x = c \<Longrightarrow> map f xs = replicate (length xs) c"
  by (induction xs) simp_all

text \<open>
  C9. The limiter runs before the chains and counts every submission, whatever its body
  and whatever becomes of it. So when a client has opened a window and sent ten
  submissions in it that were all answered with 400, its next submission within the
  window is answered with 429, valid as its fields may be.
\<close>

theorem rejected_requests_count:
  assumes "no_window s a (clock w1)" and "ip r1 = a"
    and "\<forall>e\<in>set mid. from_ip a e \<longrightarrow> time_of e < clock w1 + windowMs"
    and "length (filter (from_ip a) mid) = 9"
    and "run V cfg s (Post w1 r1 # mid) = (rs, s10)"
    and "\<forall>(e, r)\<in>set (zip (Post w1 r1 # mid) rs). from_ip a e \<longrightarrow> status r = 400"
    and "ip r11 = a" and "clock w11 < clock w1 + windowMs"
    and "validation_errors V (req_body r11) = []"
  shows "fst (post_contact V cfg w11 s10 r11) = \<lparr>status = 429, payload = Plain limit_message\<rparr>
       \<and> (\<forall>w s0 req. limiter (snd (post_contact V cfg w s0 req)) =
             fst (increment (limiter s0) (ip req) (clock w)))"
proof -
  have "limiter s10 a = Some (10, clock w1 + windowMs)"
    using window_count [OF assms(1-3), of V cfg] assms(4,5) by simp
  then have "\<not> passes s10 w11 r11"
    using passes_live [of s10 r11 10 "clock w1 + windowMs" w11] assms(7,8)
    by (simp add: max_requests_def)
  from post_contact_limited [OF this, of V cfg] show ?thesis
    by (simp add: post_contact_limiter contactLimiter_fst)
qed

theorem rejected_requests_count_witness:
  "map status (fst (run sample_validator sample_config init (burst nameless))) = replicate 10 400
   \<and> validation_errors sample_validator (req_body ann) = []
   \<and> fst (post_contact sample_validator sample_config later_io (after_burst nameless) ann) =
       \<lparr>status = 429,
        payload = Plain
          ''Too many contact form submissions from this IP, please try again after 15 minutes''\<rparr>"
proof -
  have same: "ip ann = ip nameless"
    by (simp add: ann_def nameless_def)
  have h6: "\<forall>(e, r)\<in>set (zip (Post sample_io nameless # replicate 9 (Post sample_io nameless))
      (fst (run sample_validator sample_config init (burst nameless)))).
      from_ip (ip nameless) e \<longrightarrow> status r = 400"
    using nameless_burst_statuses by (auto dest: set_zip_rightD)
  have h8: "clock later_io < clock sample_io + windowMs"
    by (simp add: later_io_def sample_io_def windowMs_def)
  have "length (fst (run sample_validator sample_config init (burst nameless))) = 10"
    using run_length [OF burst_run, of nameless] by (simp add: burst_def)
  then have all: "map status (fst (run sample_validator sample_config init (burst nameless))) =
      replicate 10 400"
    using nameless_burst_statuses
      map_constant [of "fst (run sample_validator sample_config init (burst nameless))" status 400]
    by simp
  from rejected_requests_count
    [OF burst_window(1) refl burst_window(2) burst_window(3) burst_run h6 same h8 ann_valid]
  show ?thesis
    by (simp add: all ann_valid limit_message_def)
qed


section \<open>Validation failures\<close>

lemma blank_trimmed:
  "trim (toString (name (req_body blank))) = []"
  "trim (toString (email (req_body blank))) = ''nobody''"
  "trim (toString (message (req_body blank))) = []"
  by (simp_all add: blank_def toString_simps trim_def ltrim_def rtrim_def is_space_def)

text \<open>
  C3, as amended. A submission that passes the limiter and has at least one failing
  field (name empty after trimming, trimmed email refused by \<open>isEmail\<close>, message empty
  after trimming or longer than 1000 characters) is answered with 400 and the list of
  errors, which has an entry for every failing field; nothing is written to the
  collection and no mail is handed to the transporter.
\<close>

theorem invalid_rejected:
  assumes "passes s w req"
    and "trim (toString (name (req_body req))) = []
       \<or> \<not> isEmail V (trim (toString (email (req_body req))))
       \<or> trim (toString (message (req_body req))) = []
       \<or> 1000 < length (trim (toString (message (req_body req))))"
  shows "\<exists>es s'. post_contact V cfg w s req = (\<lparr>status = 400, payload = Errors es\<rparr>, s')
       \<and> store s' = store s \<and> outbox s' = outbox s
       \<and> (trim (toString (name (req_body req))) = [] \<longrightarrow>
            \<lparr>msg = ''Name is required'', param = ''name'', location = ''body''\<rparr> \<in> set es)
       \<and> (\<not> isEmail V (trim (toString (email (req_body req)))) \<longrightarrow>
            \<lparr>msg = ''Valid email is required'', param = ''email'', location = ''body''\<rparr> \<in> set es)
       \<and> (trim (toString (message (req_body req))) = [] \<longrightarrow>
            \<lparr>msg = ''Message is required'', param = ''message'', location = ''body''\<rparr> \<in> set es)
       \<and> (1000 < length (trim (toString (message (req_body req)))) \<longrightarrow>
            \<lparr>msg = ''Message can be at most 1000 characters long'', param = ''message'',
             location = ''body''\<rparr> \<in> set es)"
proof -
  have bad: "validation_errors V (req_body req) \<noteq> []"
    using assms(2) by (auto simp: validation_errors_Nil_iff)
  have "(trim (toString (name (req_body req))) = [] \<longrightarrow>
            \<lparr>msg = ''Name is required'', param = ''name'', location = ''body''\<rparr>
              \<in> set (validation_errors V (req_body req)))
       \<and> (\<not> isEmail V (trim (toString (email (req_body req)))) \<longrightarrow>
            \<lparr>msg = ''Valid email is required'', param = ''email'', location = ''body''\<rparr>
              \<in> set (validation_errors V (req_body req)))
       \<and> (trim (toString (message (req_body req))) = [] \<longrightarrow>
            \<lparr>msg = ''Message is required'', param = ''message'', location = ''body''\<rparr>
              \<in> set (validation_errors V (req_body req)))
       \<and> (1000 < length (trim (toString (message (req_body req)))) \<longrightarrow>
            \<lparr>msg = ''Message can be at most 1000 characters long'', param = ''message'',
             location = ''body''\<rparr> \<in> set (validation_errors V (req_body req)))"
    by (simp add: validation_errors_eq)
  then show ?thesis
    using post_contact_invalid [OF assms(1) bad, of cfg] by simp
qed

theorem invalid_rejected_witness:
  "fst (post_contact sample_validator sample_config sample_io init blank) =
     \<lparr>status = 400,
      payload = Errors
        [\<lparr>msg = ''Name is required'', param = ''name'', location = ''body''\<rparr>,
         \<lparr>msg = ''Valid email is required'', param = ''email'', location = ''body''\<rparr>,
         \<lparr>msg = ''Message is required'', param = ''message'', location = ''body''\<rparr>]\<rparr>
   \<and> store (snd (post_contact sample_validator sample_config sample_io init blank)) = []
   \<and> outbox (snd (post_contact sample_validator sample_config sample_io init blank)) = []"
proof -
  have h2: "trim (toString (name (req_body blank))) = []
       \<or> \<not> isEmail sample_validator (trim (toString (email (req_body blank))))
       \<or> trim (toString (message (req_body blank))) = []
       \<or> 1000 < length (trim (toString (message (req_body blank))))"
    by (simp add: blank_trimmed)
  from invalid_rejected [OF passes_init h2, of sample_config sample_io]
  obtain es s' where
    p: "post_contact sample_validator sample_config sample_io init blank =
      (\<lparr>status = 400, payload = Errors es\<rparr>, s')"
    and st: "store s' = store init" "outbox s' = outbox init"
    by blast
  have "validation_errors sample_validator (req_body blank) \<noteq> []"
    by (simp add: validation_errors_Nil_iff blank_trimmed)
  from post_contact_invalid [OF passes_init this, of sample_config sample_io] p
  have "es = validation_errors sample_validator (req_body blank)"
    by simp
  then have "es =
      [\<lparr>msg = ''Name is required'', param = ''name'', location = ''body''\<rparr>,
       \<lparr>msg = ''Valid email is required'', param = ''email'', location = ''body''\<rparr>,
       \<lparr>msg = ''Message is required'', param = ''message'', location = ''body''\<rparr>]"
    by (simp add: validation_errors_eq blank_trimmed sample_validator_def)
  with p st show ?thesis
    by (simp add: init_def)
qed

text \<open>
  C3 as stated leaves the limiter out: the eleventh submission of a client within its
  window has an empty name and is answered with 429, not 400.
\<close>

theorem invalid_limited_counterexample:
  "trim (toString (name (req_body nameless))) = []
   \<and> status (fst (post_contact sample_validator sample_config later_io (after_burst nameless)
        nameless)) = 429"
proof -
  have "clock later_io < 900000"
    by (simp add: later_io_def)
  from after_burst_limited [OF refl this, of nameless]
  have "\<not> passes (after_burst nameless) later_io nameless" .
  from post_contact_limited [OF this, of sample_validator sample_config] show ?thesis
    by (simp add: nameless_def toString_simps trim_examples)
qed


section \<open>What the collection holds\<close>

lemma run_origin:
  "run V cfg s evs = (rs, s') \<Longrightarrow> c \<in> set (store s') \<Longrightarrow>
   c \<in> set (store s) \<or>
   (\<exists>w req. Post w req \<in> set evs \<and> c = document V w req \<and>
      validation_errors V (req_body req) = [] \<and> failed_paths c = [])"
proof (induction evs arbitrary: s rs)
  case Nil
  then show ?case by simp
next
  case (Cons e es)
  from Cons.prems(1) obtain r s1 rs' where
    st: "step V cfg s e = (r, s1)" and rn: "run V cfg s1 es = (rs', s')"
    by (auto simp: run_Cons simp del: run.simps(2))
  from Cons.IH [OF rn Cons.prems(2)] show ?case
  proof
    assume "c \<in> set (store s1)"
    with step_store [OF st] have "c \<in> set (store s) \<or> c \<in> set (created V e r)"
      by auto
    then show ?thesis
    proof
      assume "c \<in> set (store s)"
      then show ?thesis by simp
    next
      assume new: "c \<in> set (created V e r)"
      then obtain w req where e: "e = Post w req"
        by (cases e) auto
      with new have c: "status r = 201" "c = document V w req"
        by (auto split: if_splits)
      from st e have "post_contact V cfg w s req = (r, s1)"
        by simp
      from post_contact_created [OF this c(1)] e c(2) show ?thesis
        by auto
    qed
  next
    assume "\<exists>w req. Post w req \<in> set es \<and> c = document V w req \<and>
      validation_errors V (req_body req) = [] \<and> failed_paths c = []"
    then show ?thesis by auto
  qed
qed

lemma failed_paths_Nil:
  "failed_paths doc = [] \<longleftrightarrow>
     \<not> required_missing (name doc) \<and> \<not> required_missing (email doc) \<and>
     \<not> required_missing (message doc)"
  by (simp add: failed_paths_def)

lemma not_required_missing: "\<not> required_missing v \<longleftrightarrow> (\<exists>str. v = Some str \<and> str \<noteq> [])"
  by (cases v) (simp_all add: required_missing_def)

lemma dropWhile_replicate:
  "dropWhile P (replicate n x) = (if P x then [] else replicate n x)"
  by (induction n) simp_all

lemma trim_replicate: "\<not> is_space c \<Longrightarrow> trim (replicate n c) = replicate n c"
  by (simp add: trim_def ltrim_def rtrim_def dropWhile_replicate)

lemma escape_replicate_lt:
  "length (escape (replicate n (CHR ''<''))) = 4 * n"
  by (induction n) (simp_all add: escape_Nil escape_Cons escape_char_def)

text \<open>
  C2, as amended. After any sequence of requests served from the empty collection,
  every record has a name, an email and a message that are present and not empty, the
  identifier and the time of the submission that made it, and its message is the
  escaped form of a trimmed message of 1 to 1000 characters, so that the stored message
  has at most 6000 characters.
\<close>

theorem stored_record_invariant:
  assumes "run V cfg init evs = (rs, s)" and "c \<in> set (store s)"
  shows "(\<exists>n. name c = Some n \<and> n \<noteq> [])
       \<and> (\<exists>e. email c = Some e \<and> e \<noteq> [])
       \<and> (\<exists>m. message c = Some (escape m) \<and> m \<noteq> [] \<and> length m \<le> 1000 \<and>
              escape m \<noteq> [] \<and> length (escape m) \<le> 6000)
       \<and> (\<exists>w req. Post w req \<in> set evs \<and> object_id c = new_id w \<and> date c = clock w)"
proof -
  from run_origin [OF assms] obtain w req where
    ev: "Post w req \<in> set evs" and c: "c = document V w req"
    and valid: "validation_errors V (req_body req) = []" and req: "failed_paths c = []"
    by (auto simp: init_def)
  let ?m = "trim (toString (message (req_body req)))"
  have m: "message c = Some (escape ?m)" "?m \<noteq> []" "length ?m \<le> 1000"
    using valid by (simp_all add: c document_eq castString_simps
        validation_errors_Nil_iff)
  have "length (escape ?m) \<le> 6 * length ?m"
    by (rule length_escape)
  with m have "\<exists>m. message c = Some (escape m) \<and> m \<noteq> [] \<and> length m \<le> 1000 \<and>
      escape m \<noteq> [] \<and> length (escape m) \<le> 6000"
    by (intro exI [of _ ?m]) (simp add: escape_empty_iff)
  moreover have "object_id c = new_id w" "date c = clock w"
    by (simp_all add: c document_def new_contact_def)
  moreover have "\<exists>n. name c = Some n \<and> n \<noteq> []" "\<exists>e. email c = Some e \<and> e \<noteq> []"
    using req by (simp_all add: failed_paths_Nil not_required_missing)
  ultimately show ?thesis
    using ev by blast
qed

theorem stored_record_invariant_witness:
  "run sample_validator sample_config init [Post sample_io ann] =
     (fst (run sample_validator sample_config init [Post sample_io ann]),
      snd (run sample_validator sample_config init [Post sample_io ann]))
   \<and> document sample_validator sample_io ann
       \<in> set (store (snd (run sample_validator sample_config init [Post sample_io ann])))
   \<and> name (document sample_validator sample_io ann) = Some ''Ann''
   \<and> email (document sample_validator sample_io ann) = Some ''ann@example.com''
   \<and> message (document sample_validator sample_io ann) = Some (escape ''Hello'')
   \<and> length (escape ''Hello'') \<le> 6000
   \<and> (\<exists>w req. Post w req \<in> set [Post sample_io ann] \<and>
         object_id (document sample_validator sample_io ann) = new_id w \<and>
         date (document sample_validator sample_io ann) = clock w)"
proof -
  let ?evs = "[Post sample_io ann]"
  let ?c = "document sample_validator sample_io ann"
  have r: "run sample_validator sample_config init ?evs =
      (fst (run sample_validator sample_config init ?evs),
       snd (run sample_validator sample_config init ?evs))"
    by simp
  have "store (snd (run sample_validator sample_config init ?evs)) = [?c]"
    using post_contact_saved [OF passes_init ann_valid ann_save, of sample_config]
    by (simp add: init_def)
  then have mem: "?c \<in> set (store (snd (run sample_validator sample_config init ?evs)))"
    by simp
  from stored_record_invariant [OF r mem]
  have "\<exists>w req. Post w req \<in> set ?evs \<and> object_id ?c = new_id w \<and> date ?c = clock w"
    by blast
  with r mem show ?thesis
    by (simp add: ann_document_any escape_def)
qed

text \<open>
  C2 as stated bounds the stored message by 1000 characters, but the length is checked
  before \<open>escape\<close> runs: a message of 1000 characters \<open><\<close> passes the chains and is stored
  with 4000 characters.
\<close>

theorem stored_message_length_counterexample:
  "validation_errors sample_validator (req_body oversized) = []
   \<and> map (length \<circ> toString \<circ> message)
       (store (snd (post_contact sample_validator sample_config sample_io init oversized))) =
     [4000]"
proof -
  have sp: "\<not> is_space (CHR ''<'')"
    by (simp add: is_space_def)
  have tr: "trim (toString (name (req_body oversized))) = ''Ann''"
    "trim (toString (email (req_body oversized))) = ''a@b.com''"
    "trim (toString (message (req_body oversized))) = replicate 1000 (CHR ''<'')"
    by (simp_all add: oversized_def toString_simps trim_examples trim_replicate [OF sp])
  have valid: "validation_errors sample_validator (req_body oversized) = []"
    by (simp add: validation_errors_Nil_iff tr sample_validator_def)
  have doc: "document sample_validator sample_io oversized =
      \<lparr>name = Some ''Ann'', email = Some ''a@b.com'', phone = None, topic = None,
       message = Some (escape (replicate 1000 (CHR ''<''))), object_id = new_id sample_io,
       date = clock sample_io\<rparr>"
    by (simp add: document_eq castString_simps tr sample_validator_def)
      (simp add: oversized_def escape_def)
  have "escape (replicate 1000 (CHR ''<'')) \<noteq> []"
    by (simp add: escape_empty_iff)
  then have "save (insert_failure sample_io) (store init)
      (document sample_validator sample_io oversized) =
      Inr [document sample_validator sample_io oversized]"
    unfolding doc
    by (simp add: save_def failed_paths_def required_missing_def sample_io_def init_def)
  from post_contact_saved [OF passes_init valid this, of sample_config]
  have "store (snd (post_contact sample_validator sample_config sample_io init oversized)) =
      [document sample_validator sample_io oversized]"
    by (simp add: init_def)
  then show ?thesis
    by (simp add: valid doc toString_simps escape_replicate_lt)
qed


end
